theory Spec2Isabelle
  imports Main "HOL-Library.Sublist"
begin

section \<open>Byte strings and the string functions the server calls\<close>

text \<open>
  A Go \<^verbatim>\<open>string\<close> is a sequence of bytes; it is modelled as \<^typ>\<open>string\<close>, a list of
  8-bit characters. The functions of this section are the ones of Go's \<^verbatim>\<open>strings\<close>,
  \<^verbatim>\<open>net\<close> and \<^verbatim>\<open>strconv\<close> packages that \<^verbatim>\<open>hello_server.go\<close> calls, with an absent
  index (Go's \<^verbatim>\<open>-1\<close>) as \<^term>\<open>None\<close>.
\<close>

fun HasPrefix :: "string \<Rightarrow> string \<Rightarrow> bool" where
  "HasPrefix s [] = True"
| "HasPrefix [] (p # ps) = False"
| "HasPrefix (c # cs) (p # ps) = (c = p \<and> HasPrefix cs ps)"

definition HasSuffix :: "string \<Rightarrow> string \<Rightarrow> bool" where
  "HasSuffix s suff =
     (length s \<ge> length suff \<and> drop (length s - length suff) s = suff)"

text \<open>\<^verbatim>\<open>strings.Index\<close>: the position of the first occurrence of \<open>substr\<close> in \<open>s\<close>.\<close>

fun Index :: "string \<Rightarrow> string \<Rightarrow> nat option" where
  "Index [] substr = (if substr = [] then Some 0 else None)"
| "Index (c # cs) substr =
     (if HasPrefix (c # cs) substr then Some 0 else map_option Suc (Index cs substr))"

text \<open>\<^verbatim>\<open>func Contains(s, substr string) bool { return Index(s, substr) >= 0 }\<close>\<close>

definition Contains :: "string \<Rightarrow> string \<Rightarrow> bool" where
  "Contains s substr = (Index s substr \<noteq> None)"

fun IndexByte :: "string \<Rightarrow> char \<Rightarrow> nat option" where
  "IndexByte [] b = None"
| "IndexByte (c # cs) b = (if c = b then Some 0 else map_option Suc (IndexByte cs b))"

fun LastIndexByte :: "string \<Rightarrow> char \<Rightarrow> nat option" where
  "LastIndexByte [] b = None"
| "LastIndexByte (c # cs) b =
     (case LastIndexByte cs b of
        Some i \<Rightarrow> Some (Suc i)
      | None \<Rightarrow> if c = b then Some 0 else None)"

lemma IndexByte_less: "IndexByte s b = Some m \<Longrightarrow> m < length s"
  by (induction s arbitrary: m) (auto split: if_splits)

text \<open>
  \<^verbatim>\<open>strings.Split(s, sep)\<close> for a separator of one byte, which is how the server calls
  it (\<^verbatim>\<open>strings.Split(xff, ",")\<close>). Go's loop cuts \<open>s\<close> at each occurrence of the
  separator and ends with the remainder, so the result always has at least one element.
\<close>

function Split :: "string \<Rightarrow> char \<Rightarrow> string list" where
  "Split s sep =
     (case IndexByte s sep of
        None \<Rightarrow> [s]
      | Some m \<Rightarrow> take m s # Split (drop (m + 1) s) sep)"
  by pat_completeness auto
termination
proof (relation "measure (\<lambda>(s, sep). length s)")
  fix s sep m
  assume "IndexByte s sep = Some m"
  then have "m < length s" by (rule IndexByte_less)
  then show "((drop (m + 1) s, sep), (s, sep)) \<in> measure (\<lambda>(s, sep). length s)"
    by simp
qed simp

declare Split.simps [simp del]

subsection \<open>strings.TrimSpace\<close>

text \<open>
  \<^verbatim>\<open>strings.TrimSpace\<close> removes the leading and the trailing white space of a string,
  white space being the code points for which \<^verbatim>\<open>unicode.IsSpace\<close> holds: tab, line feed,
  vertical tab, form feed, carriage return, space, U+0085, U+00A0, U+1680, U+2000 to
  U+200A, U+2028, U+2029, U+202F, U+205F and U+3000. Go decodes the string as UTF-8, and a
  byte sequence decodes to one of these code points exactly when it is the code point's
  UTF-8 encoding (an ill-formed or over-long sequence decodes to U+FFFD, which is not
  white space). \<open>spaceSeqs\<close> lists those encodings.
\<close>

definition spaceSeqs :: "string list" where
  "spaceSeqs =
     [[CHR 0x09], [CHR 0x0A], [CHR 0x0B], [CHR 0x0C], [CHR 0x0D], [CHR 0x20],
      [CHR 0xC2, CHR 0x85], [CHR 0xC2, CHR 0xA0],
      [CHR 0xE1, CHR 0x9A, CHR 0x80],
      [CHR 0xE2, CHR 0x80, CHR 0x80], [CHR 0xE2, CHR 0x80, CHR 0x81],
      [CHR 0xE2, CHR 0x80, CHR 0x82], [CHR 0xE2, CHR 0x80, CHR 0x83],
      [CHR 0xE2, CHR 0x80, CHR 0x84], [CHR 0xE2, CHR 0x80, CHR 0x85],
      [CHR 0xE2, CHR 0x80, CHR 0x86], [CHR 0xE2, CHR 0x80, CHR 0x87],
      [CHR 0xE2, CHR 0x80, CHR 0x88], [CHR 0xE2, CHR 0x80, CHR 0x89],
      [CHR 0xE2, CHR 0x80, CHR 0x8A],
      [CHR 0xE2, CHR 0x80, CHR 0xA8], [CHR 0xE2, CHR 0x80, CHR 0xA9],
      [CHR 0xE2, CHR 0x80, CHR 0xAF],
      [CHR 0xE2, CHR 0x81, CHR 0x9F],
      [CHR 0xE3, CHR 0x80, CHR 0x80]]"

lemma spaceSeqs_nonempty: "p \<in> set spaceSeqs \<Longrightarrow> p \<noteq> []"
  by (auto simp: spaceSeqs_def)

lemma HasPrefix_iff: "HasPrefix s p \<longleftrightarrow> prefix p s"
  by (induction s p rule: HasPrefix.induct) auto

lemma HasSuffix_iff: "HasSuffix s p \<longleftrightarrow> suffix p s"
proof
  assume "HasSuffix s p"
  then have "s = take (length s - length p) s @ p"
    by (metis HasSuffix_def append_take_drop_id)
  then show "suffix p s" by (rule suffixI)
next
  assume "suffix p s"
  then obtain q where "s = q @ p" by (auto simp: suffix_def)
  then show "HasSuffix s p" by (simp add: HasSuffix_def)
qed

text \<open>\<^verbatim>\<open>strings.TrimLeftFunc(s, unicode.IsSpace)\<close>: drop white space while \<open>s\<close> starts with some.\<close>

function TrimLeftSpace :: "string \<Rightarrow> string" where
  "TrimLeftSpace s =
     (case find (HasPrefix s) spaceSeqs of
        None \<Rightarrow> s
      | Some p \<Rightarrow> TrimLeftSpace (drop (length p) s))"
  by pat_completeness auto
termination
proof (relation "measure length")
  fix s p
  assume "find (HasPrefix s) spaceSeqs = Some p"
  then have "p \<in> set spaceSeqs" and "prefix p s"
    by (auto simp: find_Some_iff HasPrefix_iff)
  then have "p \<noteq> []" and "length p \<le> length s"
    by (auto simp: spaceSeqs_nonempty prefix_length_le)
  then show "(drop (length p) s, s) \<in> measure length"
    by (cases p) auto
qed simp

text \<open>\<^verbatim>\<open>strings.TrimRightFunc(s, unicode.IsSpace)\<close>: the same from the end.\<close>

function TrimRightSpace :: "string \<Rightarrow> string" where
  "TrimRightSpace s =
     (case find (HasSuffix s) spaceSeqs of
        None \<Rightarrow> s
      | Some p \<Rightarrow> TrimRightSpace (take (length s - length p) s))"
  by pat_completeness auto
termination
proof (relation "measure length")
  fix s p
  assume "find (HasSuffix s) spaceSeqs = Some p"
  then have "p \<in> set spaceSeqs" and "suffix p s"
    by (auto simp: find_Some_iff HasSuffix_iff)
  then have "p \<noteq> []" and "length p \<le> length s"
    by (auto simp: spaceSeqs_nonempty suffix_length_le)
  then show "(take (length s - length p) s, s) \<in> measure length"
    by (cases p) auto
qed simp

declare TrimLeftSpace.simps [simp del] TrimRightSpace.simps [simp del]

text \<open>
  \<^verbatim>\<open>TrimSpace\<close> is \<^verbatim>\<open>TrimFunc(s, unicode.IsSpace)\<close>, that is
  \<^verbatim>\<open>TrimRightFunc(TrimLeftFunc(s, f), f)\<close>; its loops over ASCII bytes are a fast path
  to the same result.
\<close>

definition TrimSpace :: "string \<Rightarrow> string" where
  "TrimSpace s = TrimRightSpace (TrimLeftSpace s)"

subsection \<open>net.SplitHostPort\<close>

text \<open>
  \<^verbatim>\<open>net.SplitHostPort\<close> splits \<^verbatim>\<open>host:port\<close> or \<^verbatim>\<open>[host]:port\<close> at the last colon. Its
  errors are the reasons of its \<^verbatim>\<open>AddrError\<close>: ``missing port in address'', ``too many
  colons in address'', ``missing ']' in address'', ``unexpected '[' in address'' and
  ``unexpected ']' in address''. It reads \<^verbatim>\<open>hostport[0]\<close> only after it has found a colon,
  in a string that is not empty.
\<close>

datatype AddrError =
    missingPort | tooManyColons | missingBracket | unexpectedLBracket | unexpectedRBracket

text \<open>
  The tail of \<^verbatim>\<open>SplitHostPort\<close>, after \<open>host\<close> is cut out: no bracket may remain from
  position \<open>j\<close> (opening) and \<open>k\<close> (closing) on, and the port is what follows the last
  colon, at \<open>i\<close>.
\<close>

definition checkBrackets ::
    "string \<Rightarrow> string \<Rightarrow> nat \<Rightarrow> nat \<Rightarrow> nat \<Rightarrow> AddrError + (string \<times> string)" where
  "checkBrackets hostport host i j k =
     (if IndexByte (drop j hostport) CHR ''['' \<noteq> None then Inl unexpectedLBracket
      else if IndexByte (drop k hostport) CHR '']'' \<noteq> None then Inl unexpectedRBracket
      else Inr (host, drop (i + 1) hostport))"

definition SplitHostPort :: "string \<Rightarrow> AddrError + (string \<times> string)" where
  "SplitHostPort hostport =
     (case LastIndexByte hostport CHR '':'' of
        None \<Rightarrow> Inl missingPort
      | Some i \<Rightarrow>
          if hd hostport = CHR ''['' then
            (case IndexByte hostport CHR '']'' of
               None \<Rightarrow> Inl missingBracket
             | Some close \<Rightarrow>
                 if close + 1 = length hostport then Inl missingPort
                 else if close + 1 = i then
                   checkBrackets hostport (take (close - 1) (drop 1 hostport)) i 1 (close + 1)
                 else if hostport ! (close + 1) = CHR '':'' then Inl tooManyColons
                 else Inl missingPort)
          else
            (let host = take i hostport in
             if IndexByte host CHR '':'' \<noteq> None then Inl tooManyColons
             else checkBrackets hostport host i 0 0))"

section \<open>Requests and the client-IP resolver\<close>

text \<open>
  The fields of \<^verbatim>\<open>http.Request\<close> the handlers read. \<open>Query\<close> is the result of
  \<^verbatim>\<open>r.URL.Query()\<close> and \<open>Header\<close> is \<^verbatim>\<open>r.Header\<close>: both map a key to the sequence of
  its values. \<open>Body\<close> is what \<^verbatim>\<open>io.ReadAll(r.Body)\<close> returns: the bytes read and the
  error, if the read failed.
\<close>

record Request =
  Method :: string
  Query :: "string \<rightharpoonup> string list"
  Header :: "string \<rightharpoonup> string list"
  Body :: "string \<times> string option"
  RemoteAddr :: string

text \<open>
  \<^verbatim>\<open>url.Values.Get\<close> and \<^verbatim>\<open>http.Header.Get\<close>: the first value of the key, the empty
  string when there is none. \<^verbatim>\<open>Header.Get\<close> looks the key up in its canonical form; the
  keys the server asks for (\<^verbatim>\<open>X-Forwarded-For\<close>, \<^verbatim>\<open>X-Real-Ip\<close>, \<^verbatim>\<open>User-Agent\<close>) are
  canonical as written.
\<close>

definition Get :: "(string \<rightharpoonup> string list) \<Rightarrow> string \<Rightarrow> string" where
  "Get m key = (case m key of None \<Rightarrow> [] | Some [] \<Rightarrow> [] | Some (v # vs) \<Rightarrow> v)"

datatype panic = IndexOutOfRange

text \<open>
  \<^verbatim>\<open>getClientIP\<close>. \<^verbatim>\<open>parts[0]\<close> panics on an empty slice, which is the \<open>Inl\<close> result.
\<close>

definition getClientIP :: "Request \<Rightarrow> panic + string" where
  "getClientIP r =
     (let xff = Get (Header r) ''X-Forwarded-For'' in
      if xff \<noteq> [] then
        (let parts = Split xff CHR '','' in
         case parts of
           [] \<Rightarrow> Inl IndexOutOfRange
         | p # ps \<Rightarrow> Inr (TrimSpace p))
      else
        (let xr = Get (Header r) ''X-Real-Ip'' in
         if xr \<noteq> [] then Inr xr
         else
           (case SplitHostPort (RemoteAddr r) of
              Inl err \<Rightarrow> Inr (RemoteAddr r)
            | Inr (host, port) \<Rightarrow> Inr host)))"

section \<open>The response writer\<close>

text \<open>
  What a handler does to its \<^verbatim>\<open>http.ResponseWriter\<close>, as \<^verbatim>\<open>httptest.ResponseRecorder\<close>
  records it: the status code (200 until \<^verbatim>\<open>WriteHeader\<close> is called, and the first
  \<^verbatim>\<open>Write\<close> calls \<^verbatim>\<open>WriteHeader(200)\<close>), the header map and the bytes written.
\<close>

record ResponseRecorder =
  Code :: nat
  HeaderMap :: "string \<rightharpoonup> string list"
  RecBody :: string
  wroteHeader :: bool

definition NewRecorder :: ResponseRecorder where
  "NewRecorder = \<lparr>Code = 200, HeaderMap = Map.empty, RecBody = [], wroteHeader = False\<rparr>"

definition WriteHeader :: "ResponseRecorder \<Rightarrow> nat \<Rightarrow> ResponseRecorder" where
  "WriteHeader w code = (if wroteHeader w then w else w\<lparr>Code := code, wroteHeader := True\<rparr>)"

definition Write :: "ResponseRecorder \<Rightarrow> string \<Rightarrow> ResponseRecorder" where
  "Write w b = (let w' = WriteHeader w 200 in w'\<lparr>RecBody := RecBody w' @ b\<rparr>)"

definition Header_Set :: "ResponseRecorder \<Rightarrow> string \<Rightarrow> string \<Rightarrow> ResponseRecorder" where
  "Header_Set w key v = w\<lparr>HeaderMap := (HeaderMap w)(key \<mapsto> [v])\<rparr>"

definition Header_Del :: "ResponseRecorder \<Rightarrow> string \<Rightarrow> ResponseRecorder" where
  "Header_Del w key = w\<lparr>HeaderMap := (HeaderMap w)(key := None)\<rparr>"

text \<open>\<^verbatim>\<open>fmt.Fprintln(w, s)\<close> for one string operand: the string and a line feed.\<close>

definition Fprintln :: "ResponseRecorder \<Rightarrow> string \<Rightarrow> ResponseRecorder" where
  "Fprintln w s = Write w (s @ ''\<newline>'')"

text \<open>
  \<^verbatim>\<open>http.Error(w, error, code)\<close>: drops \<^verbatim>\<open>Content-Length\<close>, sets the content type and
  \<^verbatim>\<open>X-Content-Type-Options\<close>, writes the status line and prints the message with a
  line feed.
\<close>

definition http_Error :: "ResponseRecorder \<Rightarrow> string \<Rightarrow> nat \<Rightarrow> ResponseRecorder" where
  "http_Error w error code =
     (let w1 = Header_Del w ''Content-Length'';
          w2 = Header_Set w1 ''Content-Type'' ''text/plain; charset=utf-8'';
          w3 = Header_Set w2 ''X-Content-Type-Options'' ''nosniff'';
          w4 = WriteHeader w3 code
      in Fprintln w4 error)"

definition StatusOK :: nat where "StatusOK = 200"
definition StatusBadRequest :: nat where "StatusBadRequest = 400"
definition StatusNotFound :: nat where "StatusNotFound = 404"
definition StatusInternalServerError :: nat where "StatusInternalServerError = 500"

section \<open>Logging\<close>

text \<open>
  A call of \<^verbatim>\<open>log.Printf\<close> (or of \<^verbatim>\<open>log.Fatalf\<close>, which exits with status 1 after
  printing) is recorded with its format string and its operands; the text the logger
  renders from them is not modelled.
\<close>

datatype ErrKind = ErrSyntax | ErrRange

datatype NumError = NumError (Func: string) (Num: string) (Err: ErrKind)

datatype operand = StringOp string | RequestOp Request | NumErrorOp NumError

datatype logcall = Printf string "operand list" | Println string

section \<open>The handlers\<close>

text \<open>The greeting handler, \<^verbatim>\<open>handler\<close>, with the log calls it makes.\<close>

definition handler :: "ResponseRecorder \<Rightarrow> Request \<Rightarrow> ResponseRecorder \<times> logcall list" where
  "handler w r =
     (let query = Query r;
          name = Get query ''name'';
          name = (if name = [] then ''Guest'' else name);
          log1 = Printf ''Received request for %s\<newline>'' [StringOp name];
          log2 = Printf '' %v\<newline>'' [RequestOp r]
      in (Write w (''Hello, '' @ name @ ''\<newline>''), [log1, log2]))"

definition MethodGet :: string where "MethodGet = ''GET''"

definition echoHandler :: "ResponseRecorder \<Rightarrow> Request \<Rightarrow> ResponseRecorder" where
  "echoHandler w0 r =
     (let w = Header_Set w0 ''Content-Type'' ''text/plain; charset=utf-8'' in
      if Method r = MethodGet then
        (let msg = Get (Query r) ''msg'' in
         if msg = [] then Fprintln w ''no message''
         else Fprintln w msg)
      else
        (case Body r of
           (body, Some err) \<Rightarrow> http_Error w ''failed to read body'' StatusBadRequest
         | (body, None) \<Rightarrow>
             if length body = 0 then Fprintln w ''empty body''
             else Write w body))"

text \<open>
  The answer of \<^verbatim>\<open>rdb.Get(ctx, key).Result()\<close>: a value and an error, which is
  \<^verbatim>\<open>redis.Nil\<close> for a key the store does not hold. The store is a parameter of
  \<^verbatim>\<open>redisHandler\<close>. \<^verbatim>\<open>fmt.Sprintf("Key '%s' not found", key)\<close> puts the key between
  two apostrophes (byte 0x27).
\<close>

datatype redisError = redis_Nil | OtherError string

definition redisHandler ::
    "(string \<Rightarrow> string \<times> redisError option) \<Rightarrow> ResponseRecorder \<Rightarrow> Request
       \<Rightarrow> ResponseRecorder \<times> logcall list" where
  "redisHandler rdb_Get w r =
     (let key = Get (Query r) ''key'' in
      if key = [] then
        (http_Error w ''Query parameter 'key' is required'' StatusBadRequest, [])
      else
        (case rdb_Get key of
           (val, Some redis_Nil) \<Rightarrow>
             (http_Error w (''Key '' @ [CHR 0x27] @ key @ [CHR 0x27] @ '' not found'')
                StatusNotFound, [])
         | (val, Some (OtherError err)) \<Rightarrow>
             (http_Error w ''Failed to retrieve data from Redis'' StatusInternalServerError,
              [Printf ''Redis GET error for key '%s': %v'' [StringOp key, StringOp err]])
         | (val, None) \<Rightarrow>
             (Fprintln (Header_Set w ''Content-Type'' ''text/plain; charset=utf-8'') val, [])))"

text \<open>
  The two \<^verbatim>\<open>switch\<close> statements of \<^verbatim>\<open>userAgentHandler\<close>: the values of its variables
  \<^verbatim>\<open>browser\<close> and \<^verbatim>\<open>osname\<close> for a user agent \<open>ua\<close>. A \<^verbatim>\<open>switch\<close> without a tag runs
  the first case whose condition holds.
\<close>

definition browser :: "string \<Rightarrow> string" where
  "browser ua =
     (if Contains ua ''OPR'' \<or> Contains ua ''Opera'' then ''Opera''
      else if Contains ua ''Edg'' \<or> Contains ua ''Edge'' then ''Edge''
      else if Contains ua ''Chrome'' \<and> \<not> Contains ua ''Chromium'' then ''Chrome''
      else if Contains ua ''Chromium'' then ''Chromium''
      else if Contains ua ''Firefox'' then ''Firefox''
      else if Contains ua ''Safari'' \<and> \<not> Contains ua ''Chrome'' then ''Safari''
      else if Contains ua ''MSIE'' \<or> Contains ua ''Trident'' then ''Internet Explorer''
      else ''Unknown'')"

definition osname :: "string \<Rightarrow> string" where
  "osname ua =
     (if Contains ua ''Windows'' then ''Windows''
      else if Contains ua ''Macintosh'' then ''macOS''
      else if Contains ua ''Android'' then ''Android''
      else if Contains ua ''iPhone'' \<or> Contains ua ''iPad'' then ''iOS''
      else if Contains ua ''Linux'' then ''Linux''
      else ''Unknown'')"

text \<open>\<^verbatim>\<open>r.UserAgent()\<close> is \<^verbatim>\<open>r.Header.Get("User-Agent")\<close>.\<close>

definition UserAgent :: "Request \<Rightarrow> string" where
  "UserAgent r = Get (Header r) ''User-Agent''"

text \<open>
  \<^verbatim>\<open>userAgentHandler\<close> up to the map \<^verbatim>\<open>resp\<close> it hands to the JSON encoder, which
  writes it as the body; the encoding itself is not modelled.
\<close>

definition userAgentHandler ::
    "ResponseRecorder \<Rightarrow> Request \<Rightarrow> panic + ResponseRecorder \<times> (string \<rightharpoonup> string)" where
  "userAgentHandler w r =
     (let ua = UserAgent r in
      case getClientIP r of
        Inl p \<Rightarrow> Inl p
      | Inr ip \<Rightarrow>
          (let resp = [''browser'' \<mapsto> browser ua, ''os'' \<mapsto> osname ua,
                       ''user_agent'' \<mapsto> ua, ''client_ip'' \<mapsto> ip]
           in Inr (Header_Set w ''Content-Type'' ''application/json; charset=utf-8'', resp)))"

section \<open>Connecting to the cache store\<close>

text \<open>\<^verbatim>\<open>os.Getenv\<close>: the value of the variable, empty when it is not set.\<close>

definition Getenv :: "(string \<rightharpoonup> string) \<Rightarrow> string \<Rightarrow> string" where
  "Getenv env key = (case env key of None \<Rightarrow> [] | Some v \<Rightarrow> v)"

text \<open>
  \<^verbatim>\<open>strconv.Atoi\<close> where \<^verbatim>\<open>int\<close> has 64 bits: an optional sign and decimal digits. The
  loop is the one of \<^verbatim>\<open>ParseUint\<close> in base 10, which stops at the first byte that is not a
  digit, or at the first digit that takes the value out of 64 bits.
\<close>

fun ParseUint_loop :: "int \<Rightarrow> string \<Rightarrow> ErrKind + int" where
  "ParseUint_loop n [] = Inr n"
| "ParseUint_loop n (c # cs) =
     (let v = (of_char c :: int) in
      if v < 48 \<or> 57 < v then Inl ErrSyntax
      else if n * 10 + (v - 48) \<ge> 2 ^ 64 then Inl ErrRange
      else ParseUint_loop (n * 10 + (v - 48)) cs)"

definition Atoi :: "string \<Rightarrow> NumError + int" where
  "Atoi s0 =
     (if s0 = [] then Inl (NumError ''Atoi'' s0 ErrSyntax)
      else
        (let neg = (hd s0 = CHR ''-'');
             s = (if hd s0 = CHR ''+'' \<or> hd s0 = CHR ''-'' then tl s0 else s0)
         in if s = [] then Inl (NumError ''Atoi'' s0 ErrSyntax)
            else
              (case ParseUint_loop 0 s of
                 Inl e \<Rightarrow> Inl (NumError ''Atoi'' s0 e)
               | Inr un \<Rightarrow>
                   if \<not> neg \<and> un \<ge> 2 ^ 63 then Inl (NumError ''Atoi'' s0 ErrRange)
                   else if neg \<and> un > 2 ^ 63 then Inl (NumError ''Atoi'' s0 ErrRange)
                   else Inr (if neg then - un else un))))"

record Options =
  Addr :: string
  Password :: string
  DB :: int

text \<open>
  \<^verbatim>\<open>initRedis\<close>. \<open>env\<close> is the process environment and \<open>Ping\<close> the outcome of
  \<^verbatim>\<open>rdb.Ping(ctx).Result()\<close> for a client with the given options (\<open>None\<close> when the store
  answers). \<open>Inl\<close> is the \<^verbatim>\<open>log.Fatalf\<close> call that ends the process; \<open>Inr\<close> is the
  client the global \<^verbatim>\<open>rdb\<close> is set to, with the log call made.
\<close>

definition initRedis ::
    "(string \<rightharpoonup> string) \<Rightarrow> (Options \<Rightarrow> string option) \<Rightarrow> logcall + Options \<times> logcall list" where
  "initRedis env Ping =
     (let addr = Getenv env ''REDIS_ADDR'';
          addr = (if addr = []
                  then ''test-db-e2kuf-redis-master.test-db-e2kuf.svc.cluster.local:6379''
                  else addr);
          dbStr = Getenv env ''REDIS_DB'';
          dbStr = (if dbStr = [] then ''0'' else dbStr)
      in case Atoi dbStr of
           Inl err \<Rightarrow> Inl (Printf ''Invalid Redis DB number: %v'' [NumErrorOp err])
         | Inr db \<Rightarrow>
             (let rdb = \<lparr>Addr = ''test-g6r4t-redis-master.test-g6r4t.svc.cluster.local:6379'',
                         Password = ''cE0+mF2_sV3_cQ3+vT0-'',
                         DB = db\<rparr>
              in case Ping rdb of
                   Some err \<Rightarrow> Inl (Printf ''Could not connect to Redis: %v'' [StringOp err])
                 | None \<Rightarrow> Inr (rdb, [Println ''Connected to Redis successfully.''])))"

section \<open>The notions the specification uses\<close>

text \<open>
  The value of a parameter (or header) as the specification speaks of it: the first
  value the key has, when there is one and it is not empty.
\<close>

definition firstValue :: "(string \<rightharpoonup> string list) \<Rightarrow> string \<Rightarrow> string option" where
  "firstValue m key =
     (case m key of
        None \<Rightarrow> None
      | Some [] \<Rightarrow> None
      | Some (v # vs) \<Rightarrow> if v = [] then None else Some v)"

text \<open>
  The classifier as the specification describes it: an ordered list of rules, each a
  condition on the user agent and a label, the first rule whose condition holds giving
  the label, and \<^verbatim>\<open>Unknown\<close> when none holds. ``Contains'' is \<^const>\<open>sublist\<close>: the pattern
  occurs somewhere in the user agent as a contiguous run of bytes.
\<close>

datatype condition = Has string | Either string string | HasButNot string string

fun holds :: "condition \<Rightarrow> string \<Rightarrow> bool" where
  "holds (Has a) ua = sublist a ua"
| "holds (Either a b) ua = (sublist a ua \<or> sublist b ua)"
| "holds (HasButNot a b) ua = (sublist a ua \<and> \<not> sublist b ua)"

fun firstMatch :: "(condition \<times> string) list \<Rightarrow> string \<Rightarrow> string" where
  "firstMatch [] ua = ''Unknown''"
| "firstMatch ((c, label) # rules) ua = (if holds c ua then label else firstMatch rules ua)"

definition browserRules :: "(condition \<times> string) list" where
  "browserRules =
     [(Either ''OPR'' ''Opera'', ''Opera''),
      (Either ''Edg'' ''Edge'', ''Edge''),
      (HasButNot ''Chrome'' ''Chromium'', ''Chrome''),
      (Has ''Chromium'', ''Chromium''),
      (Has ''Firefox'', ''Firefox''),
      (HasButNot ''Safari'' ''Chrome'', ''Safari''),
      (Either ''MSIE'' ''Trident'', ''Internet Explorer'')]"

definition osRules :: "(condition \<times> string) list" where
  "osRules =
     [(Has ''Windows'', ''Windows''),
      (Has ''Macintosh'', ''macOS''),
      (Has ''Android'', ''Android''),
      (Either ''iPhone'' ''iPad'', ''iOS''),
      (Has ''Linux'', ''Linux'')]"

definition browserLabels :: "string set" where
  "browserLabels =
     {''Opera'', ''Edge'', ''Chrome'', ''Chromium'', ''Firefox'', ''Safari'',
      ''Internet Explorer'', ''Unknown''}"

definition osLabels :: "string set" where
  "osLabels = {''Windows'', ''macOS'', ''Android'', ''iOS'', ''Linux'', ''Unknown''}"

text \<open>
  White space as the specification means it for the resolver: a string made of white-space
  code points only (possibly none), and \<open>trimmed t s\<close>: \<open>t\<close> is \<open>s\<close> without the white
  space around it.
\<close>

definition whiteSpace :: "string \<Rightarrow> bool" where
  "whiteSpace s = (\<exists>ws. set ws \<subseteq> set spaceSeqs \<and> s = concat ws)"

definition trimmed :: "string \<Rightarrow> string \<Rightarrow> bool" where
  "trimmed t s =
     ((\<exists>l r. whiteSpace l \<and> whiteSpace r \<and> s = l @ t @ r) \<and>
      (\<forall>p \<in> set spaceSeqs. \<not> prefix p t \<and> \<not> suffix p t))"

section \<open>Starting and stopping the server\<close>

text \<open>
  After its set-up, \<^verbatim>\<open>main\<close> runs two goroutines. The one it starts with \<^verbatim>\<open>go func()\<close>
  is inside \<^verbatim>\<open>srv.ListenAndServe()\<close> and calls \<^verbatim>\<open>log.Fatal(err)\<close> when that returns an
  error. \<^verbatim>\<open>main\<close> itself is in \<^verbatim>\<open>waitForShutdown\<close>: it blocks on \<^verbatim>\<open>interruptChan\<close>, makes
  a context that ends after ten seconds, calls \<^verbatim>\<open>srv.Shutdown(ctx)\<close>, logs and calls
  \<^verbatim>\<open>os.Exit(0)\<close>. Each goroutine is a program counter; the process state also holds what
  they share.

  Of \<^verbatim>\<open>net/http\<close> the model takes what its documentation says: \<^verbatim>\<open>Shutdown\<close> first closes
  the listener, then waits until no connection is active or the context is done; and
  once \<^verbatim>\<open>Shutdown\<close> is called, \<^verbatim>\<open>ListenAndServe\<close> returns \<^verbatim>\<open>ErrServerClosed\<close> at once.
  Time is a clock in milliseconds.
\<close>

datatype mainPC = AwaitSignal | CallShutdown | InShutdown | LogShuttingDown | CallExit

datatype serverPC = InListenAndServe | ReturnedErr

record Process =
  mainAt :: mainPC
  serverAt :: serverPC
  signalled :: bool
  listening :: bool
  inflight :: nat
  now :: nat
  deadline :: "nat option"
  exitStatus :: "nat option"

text \<open>One step of \<^verbatim>\<open>waitForShutdown\<close>; a blocked goroutine stays where it is.\<close>

definition mainStep :: "Process \<Rightarrow> Process" where
  "mainStep p =
     (case mainAt p of
        AwaitSignal \<Rightarrow>
          if signalled p
          then p\<lparr>mainAt := CallShutdown, deadline := Some (now p + 10 * 1000)\<rparr>
          else p
      | CallShutdown \<Rightarrow> p\<lparr>listening := False, mainAt := InShutdown\<rparr>
      | InShutdown \<Rightarrow>
          if inflight p = 0 \<or> (case deadline p of Some d \<Rightarrow> d \<le> now p | None \<Rightarrow> False)
          then p\<lparr>mainAt := LogShuttingDown\<rparr>
          else p
      | LogShuttingDown \<Rightarrow> p\<lparr>mainAt := CallExit\<rparr>
      | CallExit \<Rightarrow> p\<lparr>exitStatus := Some 0\<rparr>)"

text \<open>
  One step of the goroutine \<^verbatim>\<open>go func() { ... if err := srv.ListenAndServe(); err != nil
  { log.Fatal(err) } }()\<close>: \<^verbatim>\<open>log.Fatal\<close> exits with status 1.
\<close>

definition serverStep :: "Process \<Rightarrow> Process" where
  "serverStep p =
     (case serverAt p of
        InListenAndServe \<Rightarrow> if listening p then p else p\<lparr>serverAt := ReturnedErr\<rparr>
      | ReturnedErr \<Rightarrow> p\<lparr>exitStatus := Some 1\<rparr>)"

text \<open>
  What can happen next: a signal arrives, time passes, a connection is accepted, a
  request in flight completes, or the scheduler runs one of the two goroutines. Nothing
  happens after the process has exited.
\<close>

datatype event = Signal | Tick nat | Accept | RequestDone | RunMain | RunServer

definition step :: "Process \<Rightarrow> event \<Rightarrow> Process" where
  "step p e =
     (if exitStatus p \<noteq> None then p
      else case e of
        Signal \<Rightarrow> p\<lparr>signalled := True\<rparr>
      | Tick ms \<Rightarrow> p\<lparr>now := now p + ms\<rparr>
      | Accept \<Rightarrow> if listening p then p\<lparr>inflight := inflight p + 1\<rparr> else p
      | RequestDone \<Rightarrow> if inflight p > 0 then p\<lparr>inflight := inflight p - 1\<rparr> else p
      | RunMain \<Rightarrow> mainStep p
      | RunServer \<Rightarrow> serverStep p)"

definition run :: "Process \<Rightarrow> event list \<Rightarrow> Process" where
  "run p es = foldl step p es"

text \<open>The server listening, with \<open>n\<close> requests in flight.\<close>

definition Listening :: "nat \<Rightarrow> Process" where
  "Listening n =
     \<lparr>mainAt = AwaitSignal, serverAt = InListenAndServe, signalled = False,
      listening = True, inflight = n, now = 0, deadline = None, exitStatus = None\<rparr>"

section \<open>Properties\<close>

subsection \<open>Searching and splitting strings\<close>

lemma Index_None_iff: "Index s substr = None \<longleftrightarrow> \<not> sublist substr s"
  by (induction s) (auto simp: HasPrefix_iff sublist_Cons_right)

lemma Contains_sublist: "Contains s substr \<longleftrightarrow> sublist substr s"
  by (simp add: Contains_def Index_None_iff)

lemma IndexByte_None_iff: "IndexByte s b = None \<longleftrightarrow> b \<notin> set s"
  by (induction s) auto

lemma IndexByte_Some:
  "IndexByte s b = Some m \<Longrightarrow> m < length s \<and> s ! m = b \<and> b \<notin> set (take m s)"
  by (induction s arbitrary: m) (auto split: if_splits)

lemma IndexByte_first: "b \<notin> set p \<Longrightarrow> IndexByte (p @ b # q) b = Some (length p)"
  by (induction p) auto

lemma IndexByte_takeWhile:
  "IndexByte s b = Some m \<Longrightarrow> take m s = takeWhile (\<lambda>c. c \<noteq> b) s"
  by (induction s arbitrary: m) (auto split: if_splits)

lemma LastIndexByte_None_iff: "LastIndexByte s b = None \<longleftrightarrow> b \<notin> set s"
  by (induction s) (auto split: option.splits)

lemma LastIndexByte_Some:
  "LastIndexByte s b = Some i \<Longrightarrow> i < length s \<and> s ! i = b \<and> b \<notin> set (drop (Suc i) s)"
  by (induction s arbitrary: i) (auto split: option.splits if_splits simp: LastIndexByte_None_iff)

lemma LastIndexByte_last: "b \<notin> set q \<Longrightarrow> LastIndexByte (p @ b # q) b = Some (length p)"
  by (induction p) (auto simp: LastIndexByte_None_iff split: option.splits)

lemma Split_Cons: "\<exists>ps. Split s sep = takeWhile (\<lambda>c. c \<noteq> sep) s # ps"
proof (cases "IndexByte s sep")
  case None
  then have "\<forall>x \<in> set s. x \<noteq> sep"
    by (auto simp: IndexByte_None_iff)
  then have "takeWhile (\<lambda>c. c \<noteq> sep) s = s"
    by (simp only: takeWhile_eq_all_conv)
  moreover from None have "Split s sep = [s]"
    by (simp add: Split.simps)
  ultimately show ?thesis by (intro exI [of _ "[]"]) (simp only:)
next
  case (Some m)
  then show ?thesis by (simp add: Split.simps IndexByte_takeWhile)
qed

subsection \<open>Trimming white space\<close>

lemma spaceSeqs_prefix_free_all:
  "\<forall>p \<in> set spaceSeqs. \<forall>q \<in> set spaceSeqs. prefix p q \<longrightarrow> p = q"
  by (simp add: spaceSeqs_def)

lemma spaceSeqs_prefix_free:
  assumes "p \<in> set spaceSeqs" and "q \<in> set spaceSeqs"
    and "prefix p s" and "prefix q s"
  shows "p = q"
proof -
  from assms(3,4) have "prefix p q \<or> prefix q p"
    by (rule prefix_same_cases [of p s q, THEN disjE]) auto
  with assms(1,2) spaceSeqs_prefix_free_all show ?thesis by blast
qed

lemma find_prefix_Some:
  "find (HasPrefix s) spaceSeqs = Some p \<Longrightarrow> p \<in> set spaceSeqs \<and> prefix p s"
  by (auto simp: find_Some_iff HasPrefix_iff)

lemma find_prefix_None:
  "find (HasPrefix s) spaceSeqs = None \<longleftrightarrow> (\<forall>p \<in> set spaceSeqs. \<not> prefix p s)"
  by (auto simp: find_None_iff HasPrefix_iff)

lemma find_suffix_Some:
  "find (HasSuffix s) spaceSeqs = Some p \<Longrightarrow> p \<in> set spaceSeqs \<and> suffix p s"
  by (auto simp: find_Some_iff HasSuffix_iff)

lemma find_suffix_None:
  "find (HasSuffix s) spaceSeqs = None \<longleftrightarrow> (\<forall>p \<in> set spaceSeqs. \<not> suffix p s)"
  by (auto simp: find_None_iff HasSuffix_iff)

lemma whiteSpace_Nil: "whiteSpace []"
  unfolding whiteSpace_def by (rule exI [of _ "[]"]) simp

lemma whiteSpace_Cons: "p \<in> set spaceSeqs \<Longrightarrow> whiteSpace s \<Longrightarrow> whiteSpace (p @ s)"
proof -
  assume p: "p \<in> set spaceSeqs" and "whiteSpace s"
  then obtain ws where "set ws \<subseteq> set spaceSeqs" "s = concat ws"
    by (auto simp: whiteSpace_def)
  with p have "set (p # ws) \<subseteq> set spaceSeqs \<and> p @ s = concat (p # ws)" by simp
  then show ?thesis unfolding whiteSpace_def by blast
qed

lemma whiteSpace_append: "whiteSpace a \<Longrightarrow> whiteSpace b \<Longrightarrow> whiteSpace (a @ b)"
proof -
  assume "whiteSpace a" "whiteSpace b"
  then obtain wa wb where "set wa \<subseteq> set spaceSeqs" "a = concat wa"
    "set wb \<subseteq> set spaceSeqs" "b = concat wb"
    by (auto simp: whiteSpace_def)
  then have "set (wa @ wb) \<subseteq> set spaceSeqs \<and> a @ b = concat (wa @ wb)" by simp
  then show ?thesis unfolding whiteSpace_def by blast
qed

lemma whiteSpace_cases:
  "whiteSpace s \<Longrightarrow> s = [] \<or> (\<exists>p \<in> set spaceSeqs. \<exists>t. whiteSpace t \<and> s = p @ t)"
proof -
  assume "whiteSpace s"
  then obtain ws where ws: "set ws \<subseteq> set spaceSeqs" "s = concat ws"
    by (auto simp: whiteSpace_def)
  show ?thesis
  proof (cases ws)
    case Nil
    with ws show ?thesis by simp
  next
    case (Cons p ws')
    with ws have "p \<in> set spaceSeqs" "whiteSpace (concat ws')" "s = p @ concat ws'"
      by (auto simp: whiteSpace_def)
    then show ?thesis by blast
  qed
qed

lemma TrimLeftSpace_decomp: "\<exists>l. whiteSpace l \<and> s = l @ TrimLeftSpace s"
proof (induction s rule: TrimLeftSpace.induct)
  case (1 s)
  show ?case
  proof (cases "find (HasPrefix s) spaceSeqs")
    case None
    then have "TrimLeftSpace s = s" by (simp add: TrimLeftSpace.simps)
    with whiteSpace_Nil show ?thesis by (intro exI [of _ "[]"]) simp
  next
    case (Some p)
    then have p: "p \<in> set spaceSeqs" "prefix p s" by (auto dest: find_prefix_Some)
    from Some have eq: "TrimLeftSpace s = TrimLeftSpace (drop (length p) s)"
      by (simp add: TrimLeftSpace.simps)
    from "1.IH" [OF Some] obtain l where l: "whiteSpace l"
      "drop (length p) s = l @ TrimLeftSpace (drop (length p) s)" by blast
    from p(2) have "s = p @ drop (length p) s" by (auto simp: prefix_def)
    with l(2) eq have "s = (p @ l) @ TrimLeftSpace s" by simp
    moreover from p(1) l(1) have "whiteSpace (p @ l)" by (rule whiteSpace_Cons)
    ultimately show ?thesis by blast
  qed
qed

lemma TrimLeftSpace_no_prefix: "p \<in> set spaceSeqs \<Longrightarrow> \<not> prefix p (TrimLeftSpace s)"
proof (induction s rule: TrimLeftSpace.induct)
  case (1 s)
  show ?case
  proof (cases "find (HasPrefix s) spaceSeqs")
    case None
    then have "TrimLeftSpace s = s" by (simp add: TrimLeftSpace.simps)
    with None "1.prems" show ?thesis by (simp add: find_prefix_None)
  next
    case (Some q)
    then have "TrimLeftSpace s = TrimLeftSpace (drop (length q) s)"
      by (simp add: TrimLeftSpace.simps)
    with "1.IH" [OF Some "1.prems"] show ?thesis by simp
  qed
qed

lemma TrimRightSpace_decomp: "\<exists>r. whiteSpace r \<and> s = TrimRightSpace s @ r"
proof (induction s rule: TrimRightSpace.induct)
  case (1 s)
  show ?case
  proof (cases "find (HasSuffix s) spaceSeqs")
    case None
    then have "TrimRightSpace s = s" by (simp add: TrimRightSpace.simps)
    with whiteSpace_Nil show ?thesis by (intro exI [of _ "[]"]) simp
  next
    case (Some p)
    then have p: "p \<in> set spaceSeqs" "suffix p s" by (auto dest: find_suffix_Some)
    from Some have eq: "TrimRightSpace s = TrimRightSpace (take (length s - length p) s)"
      by (simp add: TrimRightSpace.simps)
    from "1.IH" [OF Some] obtain r where r: "whiteSpace r"
      "take (length s - length p) s = TrimRightSpace (take (length s - length p) s) @ r"
      by blast
    from p(2) have "s = take (length s - length p) s @ p" by (auto simp: suffix_def)
    with r(2) eq have "s = TrimRightSpace s @ (r @ p)" by (metis append_assoc)
    moreover from p(1) have "whiteSpace p"
      using whiteSpace_Cons [OF _ whiteSpace_Nil, of p] by simp
    with r(1) have "whiteSpace (r @ p)" by (rule whiteSpace_append)
    ultimately show ?thesis by blast
  qed
qed

lemma TrimRightSpace_no_suffix: "p \<in> set spaceSeqs \<Longrightarrow> \<not> suffix p (TrimRightSpace s)"
proof (induction s rule: TrimRightSpace.induct)
  case (1 s)
  show ?case
  proof (cases "find (HasSuffix s) spaceSeqs")
    case None
    then have "TrimRightSpace s = s" by (simp add: TrimRightSpace.simps)
    with None "1.prems" show ?thesis by (simp add: find_suffix_None)
  next
    case (Some q)
    then have "TrimRightSpace s = TrimRightSpace (take (length s - length q) s)"
      by (simp add: TrimRightSpace.simps)
    with "1.IH" [OF Some "1.prems"] show ?thesis by simp
  qed
qed

text \<open>Trimming on the right keeps a string that does not start with white space so.\<close>

lemma TrimRightSpace_prefix: "prefix (TrimRightSpace s) s"
  using TrimRightSpace_decomp [of s] by (auto simp: prefix_def)

lemma TrimRightSpace_keeps_no_prefix:
  assumes "\<forall>p \<in> set spaceSeqs. \<not> prefix p s"
  shows "\<forall>p \<in> set spaceSeqs. \<not> prefix p (TrimRightSpace s)"
  using assms TrimRightSpace_prefix [of s] by (meson prefix_order.trans)

lemma TrimLeftSpace_whiteSpace: "whiteSpace s \<Longrightarrow> TrimLeftSpace s = []"
proof (induction s rule: length_induct)
  case (1 s)
  from whiteSpace_cases [OF "1.prems"] show ?case
  proof
    assume "s = []"
    then show ?thesis by (simp add: TrimLeftSpace.simps spaceSeqs_def)
  next
    assume "\<exists>p \<in> set spaceSeqs. \<exists>t. whiteSpace t \<and> s = p @ t"
    then obtain p t where p: "p \<in> set spaceSeqs" and t: "whiteSpace t" and s: "s = p @ t"
      by blast
    from p s have "\<not> (\<forall>q \<in> set spaceSeqs. \<not> prefix q s)"
      by (auto intro!: bexI [of _ p])
    then obtain q where q: "find (HasPrefix s) spaceSeqs = Some q"
      by (cases "find (HasPrefix s) spaceSeqs") (auto simp: find_prefix_None)
    then have "q \<in> set spaceSeqs" "prefix q s" by (auto dest: find_prefix_Some)
    with p s have "q = p" by (auto intro: spaceSeqs_prefix_free [of q p s])
    with q s have "TrimLeftSpace s = TrimLeftSpace t" by (simp add: TrimLeftSpace.simps)
    moreover from p s have "length t < length s" by (auto dest: spaceSeqs_nonempty)
    ultimately show ?thesis using "1.IH" t by simp
  qed
qed

lemma TrimSpace_empty_iff: "TrimSpace s = [] \<longleftrightarrow> whiteSpace s"
proof
  assume e: "TrimSpace s = []"
  obtain r where r: "whiteSpace r" "TrimLeftSpace s = TrimRightSpace (TrimLeftSpace s) @ r"
    using TrimRightSpace_decomp by blast
  with e have "whiteSpace (TrimLeftSpace s)" by (simp add: TrimSpace_def)
  with whiteSpace_cases TrimLeftSpace_no_prefix [of _ s] have "TrimLeftSpace s = []"
    by (metis prefixI)
  with TrimLeftSpace_decomp [of s] show "whiteSpace s" by auto
next
  assume "whiteSpace s"
  then have "TrimLeftSpace s = []" by (rule TrimLeftSpace_whiteSpace)
  then show "TrimSpace s = []"
    by (simp add: TrimSpace_def TrimRightSpace.simps spaceSeqs_def HasSuffix_def)
qed

lemma TrimSpace_trimmed: "trimmed (TrimSpace s) s"
proof -
  obtain l where l: "whiteSpace l" "s = l @ TrimLeftSpace s"
    using TrimLeftSpace_decomp by blast
  obtain r where r: "whiteSpace r" "TrimLeftSpace s = TrimSpace s @ r"
    using TrimRightSpace_decomp [of "TrimLeftSpace s"] by (auto simp: TrimSpace_def)
  from l r have "s = l @ TrimSpace s @ r" by simp
  moreover have "\<forall>p \<in> set spaceSeqs. \<not> prefix p (TrimSpace s)"
    unfolding TrimSpace_def
    by (rule TrimRightSpace_keeps_no_prefix) (simp add: TrimLeftSpace_no_prefix)
  moreover have "\<forall>p \<in> set spaceSeqs. \<not> suffix p (TrimSpace s)"
    by (simp add: TrimSpace_def TrimRightSpace_no_suffix)
  ultimately show ?thesis
    unfolding trimmed_def using l(1) r(1) by blast
qed

subsection \<open>Splitting a peer address\<close>

lemma checkBrackets_Inr:
  "checkBrackets hostport host i j k = Inr (h, p) \<longleftrightarrow>
     CHR ''['' \<notin> set (drop j hostport) \<and> CHR '']'' \<notin> set (drop k hostport) \<and>
     h = host \<and> p = drop (i + 1) hostport"
  by (auto simp: checkBrackets_def IndexByte_None_iff)

lemma SplitHostPort_plain:
  assumes i: "LastIndexByte a CHR '':'' = Some i" and nb: "hd a \<noteq> CHR ''[''"
  shows "SplitHostPort a = Inr (h, p) \<longleftrightarrow>
     h = take i a \<and> p = drop (Suc i) a \<and> CHR '':'' \<notin> set (take i a) \<and>
     CHR ''['' \<notin> set a \<and> CHR '']'' \<notin> set a"
  using i nb
  by (auto simp: SplitHostPort_def Let_def checkBrackets_Inr IndexByte_None_iff)

lemma SplitHostPort_bracket:
  assumes i: "LastIndexByte a CHR '':'' = Some i" and b: "hd a = CHR ''[''"
  shows "SplitHostPort a = Inr (h, p) \<longleftrightarrow>
     (\<exists>close. IndexByte a CHR '']'' = Some close \<and> close + 1 = i \<and>
        h = take (close - 1) (drop 1 a) \<and> p = drop (Suc i) a \<and>
        CHR ''['' \<notin> set (drop 1 a) \<and> CHR '']'' \<notin> set (drop i a))"
proof (cases "IndexByte a CHR '']''")
  case None
  with i b have "SplitHostPort a = Inl missingBracket"
    by (simp add: SplitHostPort_def)
  with None show ?thesis by simp
next
  case (Some close)
  from i have il: "i < length a" by (simp add: LastIndexByte_Some)
  show ?thesis
  proof (cases "close + 1 = i")
    case True
    with il have "close + 1 \<noteq> length a" by simp
    with i b Some True have "SplitHostPort a =
        checkBrackets a (take (close - 1) (drop 1 a)) i 1 i"
      by (simp add: SplitHostPort_def)
    with Some True show ?thesis
      by (simp add: checkBrackets_Inr) blast
  next
    case False
    with i b Some have "\<exists>e. SplitHostPort a = Inl e"
      by (simp add: SplitHostPort_def)
    with Some False show ?thesis by auto
  qed
qed

lemma SplitHostPort_Inr_shape:
  assumes "SplitHostPort a = Inr (h, p)"
  shows "a = h @ '':'' @ p \<or> a = ''['' @ h @ '']:'' @ p"
proof -
  from assms obtain i where i: "LastIndexByte a CHR '':'' = Some i"
    by (cases "LastIndexByte a CHR '':''") (auto simp: SplitHostPort_def)
  then have il: "i < length a" and ai: "a ! i = CHR '':''"
    by (auto dest: LastIndexByte_Some)
  show ?thesis
  proof (cases "hd a = CHR ''[''")
    case False
    with assms i have "h = take i a" "p = drop (Suc i) a"
      by (simp_all add: SplitHostPort_plain)
    with ai have "take i a @ a ! i # drop (Suc i) a = h @ '':'' @ p"
      by simp
    with id_take_nth_drop [OF il] have "a = h @ '':'' @ p"
      by (rule trans)
    then show ?thesis ..
  next
    case True
    with assms i obtain close where c: "IndexByte a CHR '']'' = Some close" "close + 1 = i"
      "h = take (close - 1) (drop 1 a)" "p = drop (Suc i) a"
      by (auto simp: SplitHostPort_bracket)
    from c(1) have cl: "close < length a" and ac: "a ! close = CHR '']''"
      by (auto dest: IndexByte_Some)
    from il obtain x xs where a: "a = x # xs" by (cases a) auto
    with True have x: "x = CHR ''[''" by simp
    with a ac have "close \<noteq> 0" by (cases close) auto
    then obtain n where n: "close = Suc n" by (cases close) auto
    from a n c(3) have h: "h = take n xs" by simp
    from a n cl have nl: "n < length xs" by simp
    from a n ac have xn: "xs ! n = CHR '']''" by simp
    from a n c(2) il ai have i2: "Suc n < length xs" "xs ! Suc n = CHR '':''" by auto
    from a n c(2) c(4) have p: "p = drop (Suc (Suc n)) xs" by auto
    have "drop (Suc n) xs = xs ! Suc n # drop (Suc (Suc n)) xs"
      using i2(1) by (simp add: Cons_nth_drop_Suc)
    with h p xn i2(2) have "take n xs @ xs ! n # drop (Suc n) xs = h @ '']:'' @ p"
      by simp
    with id_take_nth_drop [OF nl] have "xs = h @ '']:'' @ p"
      by (rule trans)
    with a x have "a = ''['' @ h @ '']:'' @ p" by simp
    then show ?thesis ..
  qed
qed

lemma SplitHostPort_empty_host:
  "(\<exists>p. SplitHostPort a = Inr ([], p)) \<longleftrightarrow>
   (\<exists>p. (a = '':'' @ p \<or> a = ''[]:'' @ p) \<and>
        CHR '':'' \<notin> set p \<and> CHR ''['' \<notin> set p \<and> CHR '']'' \<notin> set p)"
proof
  assume "\<exists>p. SplitHostPort a = Inr ([], p)"
  then obtain p where sp: "SplitHostPort a = Inr ([], p)" ..
  then obtain i where i: "LastIndexByte a CHR '':'' = Some i"
    by (cases "LastIndexByte a CHR '':''") (auto simp: SplitHostPort_def)
  from sp have shape: "a = '':'' @ p \<or> a = ''[]:'' @ p"
    using SplitHostPort_Inr_shape [of a "[]" p] by simp
  have p: "p = drop (Suc i) a \<and> CHR ''['' \<notin> set p \<and> CHR '']'' \<notin> set p"
  proof (cases "hd a = CHR ''[''")
    case False
    with sp i have "p = drop (Suc i) a" "CHR ''['' \<notin> set a" "CHR '']'' \<notin> set a"
      by (simp_all add: SplitHostPort_plain)
    then show ?thesis by (auto dest: in_set_dropD)
  next
    case True
    with sp i have "p = drop (Suc i) a" "CHR ''['' \<notin> set (drop 1 a)"
      "CHR '']'' \<notin> set (drop i a)"
      by (auto simp: SplitHostPort_bracket)
    moreover have "set (drop (Suc i) a) \<subseteq> set (drop 1 a)"
      "set (drop (Suc i) a) \<subseteq> set (drop i a)"
      by (simp_all add: set_drop_subset_set_drop)
    ultimately show ?thesis by auto
  qed
  moreover from i p have "CHR '':'' \<notin> set p"
    by (simp add: LastIndexByte_Some)
  ultimately show "\<exists>p. (a = '':'' @ p \<or> a = ''[]:'' @ p) \<and>
        CHR '':'' \<notin> set p \<and> CHR ''['' \<notin> set p \<and> CHR '']'' \<notin> set p"
    using shape by blast
next
  assume "\<exists>p. (a = '':'' @ p \<or> a = ''[]:'' @ p) \<and>
        CHR '':'' \<notin> set p \<and> CHR ''['' \<notin> set p \<and> CHR '']'' \<notin> set p"
  then obtain p where a: "a = '':'' @ p \<or> a = ''[]:'' @ p"
    and p: "CHR '':'' \<notin> set p" "CHR ''['' \<notin> set p" "CHR '']'' \<notin> set p"
    by blast
  from a show "\<exists>p. SplitHostPort a = Inr ([], p)"
  proof
    assume a1: "a = '':'' @ p"
    from p(1) have "LastIndexByte ([] @ CHR '':'' # p) CHR '':'' = Some (length ([] :: string))"
      by (rule LastIndexByte_last)
    with a1 have "LastIndexByte a CHR '':'' = Some 0" by simp
    moreover from a1 have "hd a \<noteq> CHR ''[''" by simp
    ultimately have "SplitHostPort a = Inr ([], p)"
      using a1 p by (simp add: SplitHostPort_plain)
    then show ?thesis ..
  next
    assume a2: "a = ''[]:'' @ p"
    from p(1) have "LastIndexByte (''[]'' @ CHR '':'' # p) CHR '':'' = Some (length ''[]'')"
      by (rule LastIndexByte_last)
    with a2 have i: "LastIndexByte a CHR '':'' = Some 2" by simp
    have "IndexByte (''['' @ CHR '']'' # '':'' @ p) CHR '']'' = Some (length ''['')"
      by (rule IndexByte_first) simp
    with a2 have c: "IndexByte a CHR '']'' = Some 1" by simp
    from a2 have "hd a = CHR ''[''" by simp
    with i c a2 p have "SplitHostPort a = Inr ([], p)"
      by (simp add: SplitHostPort_bracket)
    then show ?thesis ..
  qed
qed

subsection \<open>The client-IP resolver\<close>

lemma Get_firstValue: "Get m key = (case firstValue m key of None \<Rightarrow> [] | Some v \<Rightarrow> v)"
  by (simp add: Get_def firstValue_def split: option.splits list.splits)

lemma Get_empty_iff: "Get m key = [] \<longleftrightarrow> firstValue m key = None"
  by (simp add: Get_def firstValue_def split: option.splits list.splits)

lemma firstValue_Some_nonempty: "firstValue m key = Some v \<Longrightarrow> v \<noteq> []"
  by (auto simp: firstValue_def split: option.splits list.splits if_splits)

lemma getClientIP_eq:
  "getClientIP r =
     Inr (case firstValue (Header r) ''X-Forwarded-For'' of
            Some xff \<Rightarrow> TrimSpace (takeWhile (\<lambda>c. c \<noteq> CHR '','') xff)
          | None \<Rightarrow>
              (case firstValue (Header r) ''X-Real-Ip'' of
                 Some xr \<Rightarrow> xr
               | None \<Rightarrow>
                   (case SplitHostPort (RemoteAddr r) of
                      Inl err \<Rightarrow> RemoteAddr r
                    | Inr (host, port) \<Rightarrow> host)))"
proof (cases "firstValue (Header r) ''X-Forwarded-For''")
  case (Some xff)
  then have g: "Get (Header r) ''X-Forwarded-For'' = xff" "xff \<noteq> []"
    by (auto simp: Get_firstValue dest: firstValue_Some_nonempty)
  obtain ps where "Split xff CHR '','' = takeWhile (\<lambda>c. c \<noteq> CHR '','') xff # ps"
    using Split_Cons by blast
  with g Some show ?thesis
    by (simp add: getClientIP_def)
next
  case None
  then have g: "Get (Header r) ''X-Forwarded-For'' = []"
    by (simp add: Get_empty_iff)
  show ?thesis
  proof (cases "firstValue (Header r) ''X-Real-Ip''")
    case (Some xr)
    then have "Get (Header r) ''X-Real-Ip'' = xr" "xr \<noteq> []"
      by (auto simp: Get_firstValue dest: firstValue_Some_nonempty)
    with g None Some show ?thesis
      by (simp add: getClientIP_def)
  next
    case n: None
    then have "Get (Header r) ''X-Real-Ip'' = []"
      by (simp add: Get_empty_iff)
    with g None n show ?thesis
      by (simp add: getClientIP_def split: sum.splits prod.splits)
  qed
qed

lemma getClientIP_total: "\<exists>ip. getClientIP r = Inr ip"
proof -
  obtain ps where "Split (Get (Header r) ''X-Forwarded-For'') CHR '','' =
      takeWhile (\<lambda>c. c \<noteq> CHR '','') (Get (Header r) ''X-Forwarded-For'') # ps"
    using Split_Cons by blast
  then show ?thesis
    by (simp add: getClientIP_def Let_def split: sum.splits prod.splits)
qed

text \<open>
  Claim C1. \<^verbatim>\<open>getClientIP\<close> answers by the first of three rules that applies. When
  \<^verbatim>\<open>X-Forwarded-For\<close> has a value, the answer is the part of the value before its first
  comma, without the white space around it. Otherwise, when \<^verbatim>\<open>X-Real-Ip\<close> has a value,
  the answer is that value as it is. Otherwise the peer address is split as
  \<^verbatim>\<open>host:port\<close> (or \<^verbatim>\<open>[host]:port\<close>): the answer is the host when the address has that
  form, and the peer address as it is when it has not. The value of a header is its first
  value, and an empty value counts as none.
\<close>

theorem getClientIP_priority:
  "(firstValue (Header r) ''X-Forwarded-For'' = Some xff \<longrightarrow>
      getClientIP r = Inr (TrimSpace (takeWhile (\<lambda>c. c \<noteq> CHR '','') xff)) \<and>
      trimmed (TrimSpace (takeWhile (\<lambda>c. c \<noteq> CHR '','') xff))
        (takeWhile (\<lambda>c. c \<noteq> CHR '','') xff)) \<and>
   (firstValue (Header r) ''X-Forwarded-For'' = None \<longrightarrow>
    firstValue (Header r) ''X-Real-Ip'' = Some xr \<longrightarrow>
      getClientIP r = Inr xr) \<and>
   (firstValue (Header r) ''X-Forwarded-For'' = None \<longrightarrow>
    firstValue (Header r) ''X-Real-Ip'' = None \<longrightarrow>
    SplitHostPort (RemoteAddr r) = Inr (host, port) \<longrightarrow>
      getClientIP r = Inr host \<and>
      (RemoteAddr r = host @ '':'' @ port \<or> RemoteAddr r = ''['' @ host @ '']:'' @ port)) \<and>
   (firstValue (Header r) ''X-Forwarded-For'' = None \<longrightarrow>
    firstValue (Header r) ''X-Real-Ip'' = None \<longrightarrow>
    SplitHostPort (RemoteAddr r) = Inl err \<longrightarrow>
      getClientIP r = Inr (RemoteAddr r))"
  using SplitHostPort_Inr_shape [of "RemoteAddr r" host port]
  by (simp add: getClientIP_eq TrimSpace_trimmed)

theorem getClientIP_priority_witness:
  "getClientIP
     \<lparr>Method = ''GET'', Query = Map.empty,
      Header = [''X-Forwarded-For'' \<mapsto> [''1.2.3.4, 5.6.7.8'']],
      Body = ([], None), RemoteAddr = ''9.9.9.9:1234''\<rparr> = Inr ''1.2.3.4'' \<and>
   getClientIP
     \<lparr>Method = ''GET'', Query = Map.empty, Header = [''X-Real-Ip'' \<mapsto> [''2.2.2.2'']],
      Body = ([], None), RemoteAddr = ''9.9.9.9:1234''\<rparr> = Inr ''2.2.2.2'' \<and>
   getClientIP
     \<lparr>Method = ''GET'', Query = Map.empty, Header = Map.empty,
      Body = ([], None), RemoteAddr = ''3.3.3.3:5678''\<rparr> = Inr ''3.3.3.3'' \<and>
   getClientIP
     \<lparr>Method = ''GET'', Query = Map.empty, Header = Map.empty,
      Body = ([], None), RemoteAddr = ''bad-addr''\<rparr> = Inr ''bad-addr''"
proof -
  let ?r = "\<lambda>h a. \<lparr>Method = ''GET'', Query = Map.empty, Header = h, Body = ([], None),
      RemoteAddr = a\<rparr>"
  let ?r1 = "?r [''X-Forwarded-For'' \<mapsto> [''1.2.3.4, 5.6.7.8'']] ''9.9.9.9:1234''"
  let ?r2 = "?r [''X-Real-Ip'' \<mapsto> [''2.2.2.2'']] ''9.9.9.9:1234''"
  let ?r3 = "?r Map.empty ''3.3.3.3:5678''"
  let ?r4 = "?r Map.empty ''bad-addr''"
  have "firstValue (Header ?r1) ''X-Forwarded-For'' = Some ''1.2.3.4, 5.6.7.8''"
    by (simp add: firstValue_def)
  with getClientIP_priority [of ?r1 "''1.2.3.4, 5.6.7.8''"]
  have "getClientIP ?r1 = Inr (TrimSpace (takeWhile (\<lambda>c. c \<noteq> CHR '','') ''1.2.3.4, 5.6.7.8''))"
    by blast
  moreover have "TrimSpace (takeWhile (\<lambda>c. c \<noteq> CHR '','') ''1.2.3.4, 5.6.7.8'') = ''1.2.3.4''"
    by code_simp
  ultimately have a: "getClientIP ?r1 = Inr ''1.2.3.4''" by (simp only:)
  have "firstValue (Header ?r2) ''X-Forwarded-For'' = None"
    "firstValue (Header ?r2) ''X-Real-Ip'' = Some ''2.2.2.2''"
    by (simp_all add: firstValue_def)
  with getClientIP_priority [of ?r2 _ "''2.2.2.2''"]
  have b: "getClientIP ?r2 = Inr ''2.2.2.2''" by blast
  have "firstValue (Header ?r3) ''X-Forwarded-For'' = None"
    "firstValue (Header ?r3) ''X-Real-Ip'' = None"
    "SplitHostPort (RemoteAddr ?r3) = Inr (''3.3.3.3'', ''5678'')"
    by (simp_all add: firstValue_def SplitHostPort_def checkBrackets_def)
  with getClientIP_priority [of ?r3 _ _ "''3.3.3.3''" "''5678''"]
  have c: "getClientIP ?r3 = Inr ''3.3.3.3''" by blast
  have "firstValue (Header ?r4) ''X-Forwarded-For'' = None"
    "firstValue (Header ?r4) ''X-Real-Ip'' = None"
    "SplitHostPort (RemoteAddr ?r4) = Inl missingPort"
    by (simp_all add: firstValue_def SplitHostPort_def)
  with getClientIP_priority [of ?r4 _ _ _ _ missingPort]
  have d: "getClientIP ?r4 = Inr ''bad-addr''" by simp
  from a b c d show ?thesis by (simp only:)
qed

text \<open>
  Claim C2 says that the answer of \<^verbatim>\<open>getClientIP\<close> is never empty. It is empty when the
  value of \<^verbatim>\<open>X-Forwarded-For\<close> starts with a comma.
\<close>

theorem getClientIP_empty_counterexample:
  "getClientIP
     \<lparr>Method = ''GET'', Query = Map.empty,
      Header = [''X-Forwarded-For'' \<mapsto> ['', 5.6.7.8'']],
      Body = ([], None), RemoteAddr = ''9.9.9.9:1234''\<rparr> = Inr []"
  by code_simp

text \<open>
  Claim C2, amended. \<^verbatim>\<open>getClientIP\<close> always answers with a string and never panics.
  The string is empty in these cases only: \<^verbatim>\<open>X-Forwarded-For\<close> has a value whose part
  before the first comma is empty or all white space; or neither header has a value and
  the peer address is empty, or is \<^verbatim>\<open>:port\<close> or \<^verbatim>\<open>[]:port\<close> for a port without colon and
  bracket.
\<close>

theorem getClientIP_empty_iff:
  "\<exists>ip. getClientIP r = Inr ip \<and>
     (ip = [] \<longleftrightarrow>
        (case firstValue (Header r) ''X-Forwarded-For'' of
           Some xff \<Rightarrow> whiteSpace (takeWhile (\<lambda>c. c \<noteq> CHR '','') xff)
         | None \<Rightarrow>
             firstValue (Header r) ''X-Real-Ip'' = None \<and>
             (RemoteAddr r = [] \<or>
              (\<exists>port. (RemoteAddr r = '':'' @ port \<or> RemoteAddr r = ''[]:'' @ port) \<and>
                 CHR '':'' \<notin> set port \<and> CHR ''['' \<notin> set port \<and> CHR '']'' \<notin> set port))))"
proof -
  have code: "\<exists>ip. getClientIP r = Inr ip \<and>
     (ip = [] \<longleftrightarrow>
        (case firstValue (Header r) ''X-Forwarded-For'' of
           Some xff \<Rightarrow> TrimSpace (takeWhile (\<lambda>c. c \<noteq> CHR '','') xff) = []
         | None \<Rightarrow>
             firstValue (Header r) ''X-Real-Ip'' = None \<and>
             (RemoteAddr r = [] \<or> (\<exists>p. SplitHostPort (RemoteAddr r) = Inr ([], p)))))"
  proof (cases "firstValue (Header r) ''X-Forwarded-For''")
    case (Some xff)
    then show ?thesis by (simp add: getClientIP_eq)
  next
    case None
    show ?thesis
    proof (cases "firstValue (Header r) ''X-Real-Ip''")
      case (Some xr)
      with None show ?thesis
        by (auto simp: getClientIP_eq dest: firstValue_Some_nonempty)
    next
      case n: None
      have nil: "SplitHostPort [] = Inl missingPort"
        by (simp add: SplitHostPort_def)
      show ?thesis
      proof (cases "SplitHostPort (RemoteAddr r)")
        case (Inl e)
        with None n show ?thesis by (simp add: getClientIP_eq)
      next
        case (Inr hp)
        obtain h p where hp: "hp = (h, p)" by (cases hp)
        from Inr nil have "RemoteAddr r \<noteq> []" by auto
        with None n Inr hp show ?thesis by (simp add: getClientIP_eq)
      qed
    qed
  qed
  show ?thesis
    using code
    by (simp add: TrimSpace_empty_iff SplitHostPort_empty_host split: option.splits)
qed

theorem getClientIP_empty_iff_witness:
  "(\<exists>ip. getClientIP
       \<lparr>Method = ''GET'', Query = Map.empty, Header = Map.empty,
        Body = ([], None), RemoteAddr = ''3.3.3.3:5678''\<rparr> = Inr ip \<and> ip \<noteq> []) \<and>
   getClientIP
     \<lparr>Method = ''GET'', Query = Map.empty,
      Header = [''X-Forwarded-For'' \<mapsto> ['', 5.6.7.8'']],
      Body = ([], None), RemoteAddr = ''9.9.9.9:1234''\<rparr> = Inr [] \<and>
   getClientIP
     \<lparr>Method = ''GET'', Query = Map.empty, Header = Map.empty,
      Body = ([], None), RemoteAddr = '':8080''\<rparr> = Inr []"
proof -
  let ?r = "\<lambda>h a. \<lparr>Method = ''GET'', Query = Map.empty, Header = h, Body = ([], None),
      RemoteAddr = a\<rparr>"
  have a: "\<exists>ip. getClientIP (?r Map.empty ''3.3.3.3:5678'') = Inr ip \<and> ip \<noteq> []"
    using getClientIP_empty_iff [of "?r Map.empty ''3.3.3.3:5678''"]
    by (simp add: firstValue_def)
  have "whiteSpace (takeWhile (\<lambda>c. c \<noteq> CHR '','') '', 5.6.7.8'')"
    by (simp add: whiteSpace_Nil)
  then have b: "getClientIP (?r [''X-Forwarded-For'' \<mapsto> ['', 5.6.7.8'']] ''9.9.9.9:1234'') = Inr []"
    using getClientIP_empty_iff [of "?r [''X-Forwarded-For'' \<mapsto> ['', 5.6.7.8'']] ''9.9.9.9:1234''"]
    by (simp add: firstValue_def)
  have c: "getClientIP (?r Map.empty '':8080'') = Inr []"
    using getClientIP_empty_iff [of "?r Map.empty '':8080''"]
    by (simp add: firstValue_def)
  from a b c show ?thesis by blast
qed

subsection \<open>The user-agent classifier\<close>

lemma browser_firstMatch: "browser ua = firstMatch browserRules ua"
  by (simp add: browser_def browserRules_def Contains_sublist)

lemma osname_firstMatch: "osname ua = firstMatch osRules ua"
  by (simp add: osname_def osRules_def Contains_sublist)

lemma firstMatch_label: "firstMatch rules ua \<in> insert ''Unknown'' (snd ` set rules)"
  by (induction rules ua rule: firstMatch.induct) auto

lemma firstMatch_default:
  "\<forall>c \<in> fst ` set rules. \<not> holds c ua \<Longrightarrow> firstMatch rules ua = ''Unknown''"
  by (induction rules ua rule: firstMatch.induct) auto

lemma browser_in_labels: "browser ua \<in> browserLabels"
  using firstMatch_label [of browserRules ua]
  by (simp add: browser_firstMatch browserLabels_def browserRules_def)

lemma osname_in_labels: "osname ua \<in> osLabels"
  using firstMatch_label [of osRules ua]
  by (simp add: osname_firstMatch osLabels_def osRules_def)

lemma userAgentHandler_resp:
  "\<exists>ip. getClientIP r = Inr ip \<and>
     userAgentHandler w r =
       Inr (Header_Set w ''Content-Type'' ''application/json; charset=utf-8'',
            [''browser'' \<mapsto> browser (UserAgent r), ''os'' \<mapsto> osname (UserAgent r),
             ''user_agent'' \<mapsto> UserAgent r, ''client_ip'' \<mapsto> ip])"
  using getClientIP_total [of r] by (auto simp: userAgentHandler_def Let_def)

text \<open>
  Claim C3. For every request, \<^verbatim>\<open>userAgentHandler\<close> answers (it does not panic), and
  the browser label of its answer is the label of the first rule of the browser list
  whose condition holds for the user agent, \<^verbatim>\<open>Unknown\<close> when none holds; the
  operating-system label is found in the same way from the operating-system list.
\<close>

theorem userAgentHandler_first_match:
  "\<exists>w' resp. userAgentHandler w r = Inr (w', resp) \<and>
     resp ''browser'' = Some (firstMatch browserRules (UserAgent r)) \<and>
     resp ''os'' = Some (firstMatch osRules (UserAgent r)) \<and>
     resp ''user_agent'' = Some (UserAgent r)"
proof -
  obtain ip where "userAgentHandler w r =
       Inr (Header_Set w ''Content-Type'' ''application/json; charset=utf-8'',
            [''browser'' \<mapsto> browser (UserAgent r), ''os'' \<mapsto> osname (UserAgent r),
             ''user_agent'' \<mapsto> UserAgent r, ''client_ip'' \<mapsto> ip])"
    using userAgentHandler_resp by blast
  then show ?thesis
    by (simp add: browser_firstMatch osname_firstMatch)
qed

theorem userAgentHandler_first_match_witness:
  "\<exists>w' resp.
     userAgentHandler NewRecorder
       \<lparr>Method = ''GET'', Query = Map.empty,
        Header = [''User-Agent'' \<mapsto> [''Mozilla/5.0 (Windows NT 10.0; Win64; x64) Chrome/90.0'']],
        Body = ([], None), RemoteAddr = ''6.6.6.6:2222''\<rparr> = Inr (w', resp) \<and>
     resp ''browser'' = Some ''Chrome'' \<and> resp ''os'' = Some ''Windows''"
proof -
  let ?ua = "''Mozilla/5.0 (Windows NT 10.0; Win64; x64) Chrome/90.0''"
  let ?r = "\<lparr>Method = ''GET'', Query = Map.empty, Header = [''User-Agent'' \<mapsto> [?ua]],
        Body = ([], None), RemoteAddr = ''6.6.6.6:2222''\<rparr>"
  have ua: "UserAgent ?r = ?ua" by (simp add: UserAgent_def Get_def)
  have b: "firstMatch browserRules ?ua = ''Chrome''"
    by (simp add: browser_firstMatch [symmetric] browser_def Contains_def)
  have os: "firstMatch osRules ?ua = ''Windows''"
    by (simp add: osname_firstMatch [symmetric] osname_def Contains_def)
  show ?thesis
    using userAgentHandler_first_match [of NewRecorder ?r] unfolding ua b os by blast
qed

text \<open>
  Claim C9. For every request, the browser label \<^verbatim>\<open>userAgentHandler\<close> answers with is
  one of Opera, Edge, Chrome, Chromium, Firefox, Safari, Internet Explorer and Unknown,
  and the operating-system label is one of Windows, macOS, Android, iOS, Linux and
  Unknown; a label is \<^verbatim>\<open>Unknown\<close> when the condition of no rule of its list holds for
  the user agent.
\<close>

theorem userAgentHandler_labels_closed:
  "\<exists>w' resp b os. userAgentHandler w r = Inr (w', resp) \<and>
     resp ''browser'' = Some b \<and> b \<in> browserLabels \<and>
     resp ''os'' = Some os \<and> os \<in> osLabels \<and>
     ((\<forall>c \<in> fst ` set browserRules. \<not> holds c (UserAgent r)) \<longrightarrow> b = ''Unknown'') \<and>
     ((\<forall>c \<in> fst ` set osRules. \<not> holds c (UserAgent r)) \<longrightarrow> os = ''Unknown'')"
proof -
  obtain ip where "userAgentHandler w r =
       Inr (Header_Set w ''Content-Type'' ''application/json; charset=utf-8'',
            [''browser'' \<mapsto> browser (UserAgent r), ''os'' \<mapsto> osname (UserAgent r),
             ''user_agent'' \<mapsto> UserAgent r, ''client_ip'' \<mapsto> ip])"
    using userAgentHandler_resp by blast
  moreover have "(\<forall>c \<in> fst ` set browserRules. \<not> holds c (UserAgent r))
      \<longrightarrow> browser (UserAgent r) = ''Unknown''"
    using firstMatch_default [of browserRules] by (simp add: browser_firstMatch)
  moreover have "(\<forall>c \<in> fst ` set osRules. \<not> holds c (UserAgent r))
      \<longrightarrow> osname (UserAgent r) = ''Unknown''"
    using firstMatch_default [of osRules] by (simp add: osname_firstMatch)
  ultimately show ?thesis
    using browser_in_labels [of "UserAgent r"] osname_in_labels [of "UserAgent r"]
    by simp
qed

theorem userAgentHandler_labels_closed_witness:
  "\<exists>w' resp.
     userAgentHandler NewRecorder
       \<lparr>Method = ''GET'', Query = Map.empty, Header = [''User-Agent'' \<mapsto> [''curl/8.5.0'']],
        Body = ([], None), RemoteAddr = ''6.6.6.6:2222''\<rparr> = Inr (w', resp) \<and>
     resp ''browser'' = Some ''Unknown'' \<and> resp ''os'' = Some ''Unknown''"
proof -
  let ?r = "\<lparr>Method = ''GET'', Query = Map.empty, Header = [''User-Agent'' \<mapsto> [''curl/8.5.0'']],
        Body = ([], None), RemoteAddr = ''6.6.6.6:2222''\<rparr>"
  have ua: "UserAgent ?r = ''curl/8.5.0''" by (simp add: UserAgent_def Get_def)
  have b: "\<forall>c \<in> fst ` set browserRules. \<not> holds c ''curl/8.5.0''"
    by (simp add: browserRules_def Contains_sublist [symmetric] Contains_def)
  have os: "\<forall>c \<in> fst ` set osRules. \<not> holds c ''curl/8.5.0''"
    by (simp add: osRules_def Contains_sublist [symmetric] Contains_def)
  show ?thesis
    using userAgentHandler_labels_closed [of NewRecorder ?r] b os unfolding ua by blast
qed

subsection \<open>The greeting and echo handlers\<close>

lemma Write_NewRecorder:
  "Write NewRecorder b = \<lparr>Code = 200, HeaderMap = Map.empty, RecBody = b, wroteHeader = True\<rparr>"
  by (simp add: Write_def WriteHeader_def NewRecorder_def)

lemma Fprintln_NewRecorder_hdr:
  "Fprintln (Header_Set NewRecorder k v) s =
     \<lparr>Code = 200, HeaderMap = [k \<mapsto> [v]], RecBody = s @ ''\<newline>'', wroteHeader = True\<rparr>"
  by (simp add: Fprintln_def Write_def WriteHeader_def NewRecorder_def Header_Set_def)

lemma Write_NewRecorder_hdr:
  "Write (Header_Set NewRecorder k v) b =
     \<lparr>Code = 200, HeaderMap = [k \<mapsto> [v]], RecBody = b, wroteHeader = True\<rparr>"
  by (simp add: Write_def WriteHeader_def NewRecorder_def Header_Set_def)

lemma http_Error_fresh:
  "\<not> wroteHeader w \<Longrightarrow> RecBody w = [] \<Longrightarrow>
   Code (http_Error w msg code) = code \<and> RecBody (http_Error w msg code) = msg @ ''\<newline>'' \<and>
   HeaderMap (http_Error w msg code) ''Content-Type'' = Some [''text/plain; charset=utf-8'']"
  by (simp add: http_Error_def Let_def Fprintln_def Write_def WriteHeader_def Header_Set_def
        Header_Del_def)

text \<open>
  Claim C7. For every request, the greeting handler answers with status 200 and the body
  \<^verbatim>\<open>Hello, {name}\<close> and a line feed, where \<open>name\<close> is the value of the query parameter
  \<^verbatim>\<open>name\<close> and \<^verbatim>\<open>Guest\<close> when there is none (a parameter given with an empty value
  has none: \<^verbatim>\<open>url.Values.Get\<close> returns the empty string for both). Without the
  parameter the body is \<^verbatim>\<open>Hello, Guest\<close>, and with \<^verbatim>\<open>name=Test\<close> it is
  \<^verbatim>\<open>Hello, Test\<close>.
\<close>

theorem handler_greeting:
  "Code (fst (handler NewRecorder r)) = StatusOK \<and>
   RecBody (fst (handler NewRecorder r)) =
     ''Hello, '' @ (case firstValue (Query r) ''name'' of None \<Rightarrow> ''Guest'' | Some v \<Rightarrow> v)
       @ ''\<newline>'' \<and>
   (Query r ''name'' = None \<longrightarrow>
      RecBody (fst (handler NewRecorder r)) = ''Hello, Guest\<newline>'') \<and>
   (Query r ''name'' = Some [''Test''] \<longrightarrow>
      RecBody (fst (handler NewRecorder r)) = ''Hello, Test\<newline>'')"
  by (simp add: handler_def Let_def Write_NewRecorder StatusOK_def Get_def firstValue_def
        split: option.splits list.splits)

theorem handler_greeting_witness:
  "Code (fst (handler NewRecorder
      \<lparr>Method = ''GET'', Query = Map.empty, Header = Map.empty, Body = ([], None),
       RemoteAddr = ''9.9.9.9:1234''\<rparr>)) = 200 \<and>
   RecBody (fst (handler NewRecorder
      \<lparr>Method = ''GET'', Query = Map.empty, Header = Map.empty, Body = ([], None),
       RemoteAddr = ''9.9.9.9:1234''\<rparr>)) = ''Hello, Guest\<newline>'' \<and>
   RecBody (fst (handler NewRecorder
      \<lparr>Method = ''GET'', Query = [''name'' \<mapsto> [''Test'']], Header = Map.empty,
       Body = ([], None), RemoteAddr = ''9.9.9.9:1234''\<rparr>)) = ''Hello, Test\<newline>''"
  using
    handler_greeting [of "\<lparr>Method = ''GET'', Query = Map.empty, Header = Map.empty,
      Body = ([], None), RemoteAddr = ''9.9.9.9:1234''\<rparr>"]
    handler_greeting [of "\<lparr>Method = ''GET'', Query = [''name'' \<mapsto> [''Test'']],
      Header = Map.empty, Body = ([], None), RemoteAddr = ''9.9.9.9:1234''\<rparr>"]
  by (simp add: StatusOK_def firstValue_def)

text \<open>
  Claim C4 says that a GET request with a parameter \<^verbatim>\<open>msg\<close> is answered with that value
  as the body. The handler prints it with \<^verbatim>\<open>Fprintln\<close>: for \<^verbatim>\<open>msg=hello\<close> the body is
  \<^verbatim>\<open>hello\<close> and a line feed, as \<^verbatim>\<open>TestEchoHandler_Get\<close> expects.
\<close>

theorem echoHandler_counterexample:
  "RecBody (echoHandler NewRecorder
      \<lparr>Method = ''GET'', Query = [''msg'' \<mapsto> [''hello'']], Header = Map.empty,
       Body = ([], None), RemoteAddr = ''9.9.9.9:1234''\<rparr>) = ''hello\<newline>'' \<and>
   RecBody (echoHandler NewRecorder
      \<lparr>Method = ''GET'', Query = [''msg'' \<mapsto> [''hello'']], Header = Map.empty,
       Body = ([], None), RemoteAddr = ''9.9.9.9:1234''\<rparr>) \<noteq> ''hello''"
  by (simp add: echoHandler_def MethodGet_def Get_def Let_def Fprintln_NewRecorder_hdr)

text \<open>
  Claim C4, amended. For every GET request the echo handler answers with status 200 and
  the value of \<^verbatim>\<open>msg\<close> followed by a line feed, or \<^verbatim>\<open>no message\<close> and a line feed when
  \<^verbatim>\<open>msg\<close> has no value. For every other request (POST, on the route) whose body is
  read in full, it answers with status 200 and the body verbatim, or \<^verbatim>\<open>empty body\<close> and
  a line feed when the body is empty. The status is 400 exactly when the method is not
  GET and reading the body fails; the body is then \<^verbatim>\<open>failed to read body\<close> and a line
  feed. A GET request never has its body read.
\<close>

theorem echoHandler_response:
  "(Method r = MethodGet \<longrightarrow>
      Code (echoHandler NewRecorder r) = StatusOK \<and>
      RecBody (echoHandler NewRecorder r) =
        (case firstValue (Query r) ''msg'' of
           None \<Rightarrow> ''no message\<newline>''
         | Some msg \<Rightarrow> msg @ ''\<newline>'')) \<and>
   (Method r \<noteq> MethodGet \<longrightarrow> snd (Body r) = None \<longrightarrow>
      Code (echoHandler NewRecorder r) = StatusOK \<and>
      RecBody (echoHandler NewRecorder r) =
        (if fst (Body r) = [] then ''empty body\<newline>'' else fst (Body r))) \<and>
   (Method r \<noteq> MethodGet \<longrightarrow> snd (Body r) \<noteq> None \<longrightarrow>
      RecBody (echoHandler NewRecorder r) = ''failed to read body\<newline>'') \<and>
   (Code (echoHandler NewRecorder r) = StatusBadRequest
      \<longleftrightarrow> Method r \<noteq> MethodGet \<and> snd (Body r) \<noteq> None)"
proof -
  have fresh: "\<not> wroteHeader (Header_Set NewRecorder k v) \<and> RecBody (Header_Set NewRecorder k v) = []"
    for k v by (simp add: Header_Set_def NewRecorder_def)
  show ?thesis
  proof (cases "Method r = MethodGet")
    case True
    then show ?thesis
      by (auto simp: echoHandler_def Let_def Fprintln_NewRecorder_hdr Get_firstValue
            StatusOK_def StatusBadRequest_def split: option.splits
            dest: firstValue_Some_nonempty)
  next
    case False
    obtain body err where b: "Body r = (body, err)" by (cases "Body r")
    show ?thesis
    proof (cases err)
      case None
      with False b show ?thesis
        by (simp add: echoHandler_def Let_def Fprintln_NewRecorder_hdr Write_NewRecorder_hdr
              StatusOK_def StatusBadRequest_def)
    next
      case (Some e)
      with False b show ?thesis
        using http_Error_fresh [OF conjunct1 [OF fresh] conjunct2 [OF fresh]]
        by (simp add: echoHandler_def Let_def StatusOK_def StatusBadRequest_def)
    qed
  qed
qed

theorem echoHandler_response_witness:
  "RecBody (echoHandler NewRecorder
      \<lparr>Method = ''GET'', Query = [''msg'' \<mapsto> [''hello'']], Header = Map.empty,
       Body = ([], None), RemoteAddr = ''9.9.9.9:1234''\<rparr>) = ''hello\<newline>'' \<and>
   RecBody (echoHandler NewRecorder
      \<lparr>Method = ''GET'', Query = Map.empty, Header = Map.empty,
       Body = ([], None), RemoteAddr = ''9.9.9.9:1234''\<rparr>) = ''no message\<newline>'' \<and>
   RecBody (echoHandler NewRecorder
      \<lparr>Method = ''POST'', Query = Map.empty, Header = Map.empty,
       Body = (''posted-data'', None), RemoteAddr = ''9.9.9.9:1234''\<rparr>) = ''posted-data'' \<and>
   RecBody (echoHandler NewRecorder
      \<lparr>Method = ''POST'', Query = Map.empty, Header = Map.empty,
       Body = ([], None), RemoteAddr = ''9.9.9.9:1234''\<rparr>) = ''empty body\<newline>'' \<and>
   Code (echoHandler NewRecorder
      \<lparr>Method = ''POST'', Query = Map.empty, Header = Map.empty,
       Body = (''post'', Some ''unexpected EOF''), RemoteAddr = ''9.9.9.9:1234''\<rparr>) = 400 \<and>
   Code (echoHandler NewRecorder
      \<lparr>Method = ''GET'', Query = Map.empty, Header = Map.empty,
       Body = (''post'', Some ''unexpected EOF''), RemoteAddr = ''9.9.9.9:1234''\<rparr>) \<noteq> 400"
  using
    echoHandler_response [of "\<lparr>Method = ''GET'', Query = [''msg'' \<mapsto> [''hello'']],
      Header = Map.empty, Body = ([], None), RemoteAddr = ''9.9.9.9:1234''\<rparr>"]
    echoHandler_response [of "\<lparr>Method = ''GET'', Query = Map.empty,
      Header = Map.empty, Body = ([], None), RemoteAddr = ''9.9.9.9:1234''\<rparr>"]
    echoHandler_response [of "\<lparr>Method = ''POST'', Query = Map.empty,
      Header = Map.empty, Body = (''posted-data'', None), RemoteAddr = ''9.9.9.9:1234''\<rparr>"]
    echoHandler_response [of "\<lparr>Method = ''POST'', Query = Map.empty,
      Header = Map.empty, Body = ([], None), RemoteAddr = ''9.9.9.9:1234''\<rparr>"]
    echoHandler_response [of "\<lparr>Method = ''POST'', Query = Map.empty,
      Header = Map.empty, Body = (''post'', Some ''unexpected EOF''),
      RemoteAddr = ''9.9.9.9:1234''\<rparr>"]
    echoHandler_response [of "\<lparr>Method = ''GET'', Query = Map.empty,
      Header = Map.empty, Body = (''post'', Some ''unexpected EOF''),
      RemoteAddr = ''9.9.9.9:1234''\<rparr>"]
  by (simp add: MethodGet_def StatusBadRequest_def firstValue_def)

text \<open>
  Claim C10. A query parameter whose value is empty is treated as absent: a greeting
  request with \<^verbatim>\<open>name=\<close> is answered \<^verbatim>\<open>Hello, Guest\<close>, an echo GET request with
  \<^verbatim>\<open>msg=\<close> is answered \<^verbatim>\<open>no message\<close>, and in both cases the response is the one
  to the same request without the parameter.
\<close>

theorem empty_parameter_as_absent:
  "(Query r ''name'' = Some ([] # vs) \<longrightarrow>
      RecBody (fst (handler NewRecorder r)) = ''Hello, Guest\<newline>'' \<and>
      fst (handler w r) = fst (handler w (r\<lparr>Query := (Query r)(''name'' := None)\<rparr>))) \<and>
   (Method r = MethodGet \<longrightarrow> Query r ''msg'' = Some ([] # vs) \<longrightarrow>
      RecBody (echoHandler NewRecorder r) = ''no message\<newline>'' \<and>
      echoHandler w r = echoHandler w (r\<lparr>Query := (Query r)(''msg'' := None)\<rparr>))"
  by (simp add: handler_def echoHandler_def Let_def Get_def Write_NewRecorder
        Fprintln_NewRecorder_hdr)

theorem empty_parameter_as_absent_witness:
  "RecBody (fst (handler NewRecorder
      \<lparr>Method = ''GET'', Query = [''name'' \<mapsto> [[]]], Header = Map.empty,
       Body = ([], None), RemoteAddr = ''9.9.9.9:1234''\<rparr>)) = ''Hello, Guest\<newline>'' \<and>
   fst (handler NewRecorder
      \<lparr>Method = ''GET'', Query = [''name'' \<mapsto> [[]]], Header = Map.empty,
       Body = ([], None), RemoteAddr = ''9.9.9.9:1234''\<rparr>) =
   fst (handler NewRecorder
      \<lparr>Method = ''GET'', Query = Map.empty, Header = Map.empty,
       Body = ([], None), RemoteAddr = ''9.9.9.9:1234''\<rparr>) \<and>
   RecBody (echoHandler NewRecorder
      \<lparr>Method = ''GET'', Query = [''msg'' \<mapsto> [[]]], Header = Map.empty,
       Body = ([], None), RemoteAddr = ''9.9.9.9:1234''\<rparr>) = ''no message\<newline>'' \<and>
   echoHandler NewRecorder
      \<lparr>Method = ''GET'', Query = [''msg'' \<mapsto> [[]]], Header = Map.empty,
       Body = ([], None), RemoteAddr = ''9.9.9.9:1234''\<rparr> =
   echoHandler NewRecorder
      \<lparr>Method = ''GET'', Query = Map.empty, Header = Map.empty,
       Body = ([], None), RemoteAddr = ''9.9.9.9:1234''\<rparr>"
proof -
  let ?r1 = "\<lparr>Method = ''GET'', Query = [''name'' \<mapsto> [[]]], Header = Map.empty,
       Body = ([], None), RemoteAddr = ''9.9.9.9:1234''\<rparr>"
  let ?r2 = "\<lparr>Method = ''GET'', Query = [''msg'' \<mapsto> [[]]], Header = Map.empty,
       Body = ([], None), RemoteAddr = ''9.9.9.9:1234''\<rparr>"
  have q1: "Query ?r1 ''name'' = Some ([] # [])" by simp
  have q2: "Method ?r2 = MethodGet" "Query ?r2 ''msg'' = Some ([] # [])"
    by (simp_all add: MethodGet_def)
  from empty_parameter_as_absent [of ?r1 "[]" NewRecorder] q1
  have a: "RecBody (fst (handler NewRecorder ?r1)) = ''Hello, Guest\<newline>''"
    and b: "fst (handler NewRecorder ?r1) =
      fst (handler NewRecorder (?r1\<lparr>Query := (Query ?r1)(''name'' := None)\<rparr>))"
    by blast+
  from empty_parameter_as_absent [of ?r2 "[]" NewRecorder] q2
  have c: "RecBody (echoHandler NewRecorder ?r2) = ''no message\<newline>''"
    and d: "echoHandler NewRecorder ?r2 =
      echoHandler NewRecorder (?r2\<lparr>Query := (Query ?r2)(''msg'' := None)\<rparr>)"
    by blast+
  have e1: "?r1\<lparr>Query := (Query ?r1)(''name'' := None)\<rparr> =
      \<lparr>Method = ''GET'', Query = Map.empty, Header = Map.empty,
       Body = ([], None), RemoteAddr = ''9.9.9.9:1234''\<rparr>" by simp
  have e2: "?r2\<lparr>Query := (Query ?r2)(''msg'' := None)\<rparr> =
      \<lparr>Method = ''GET'', Query = Map.empty, Header = Map.empty,
       Body = ([], None), RemoteAddr = ''9.9.9.9:1234''\<rparr>" by simp
  show ?thesis using a b c d unfolding e1 e2 by blast
qed

subsection \<open>The cache lookup\<close>

text \<open>
  Claim C5. For every request to \<^verbatim>\<open>redisHandler\<close>: when the query parameter \<^verbatim>\<open>key\<close> has
  no value, the status is 400 and the message names the parameter \<^verbatim>\<open>key\<close>; when the
  store answers \<^verbatim>\<open>redis.Nil\<close> for the key, the status is 404 and the message is
  \<^verbatim>\<open>Key '{key}' not found\<close>, which contains the key; on any other error of the store
  the status is 500, the message is a fixed text, and the error is passed to the log
  only; when the store answers with a value, the status is 200, the content type is
  plain text and the body is the value followed by a line feed. Every message is
  followed by a line feed.
\<close>

theorem redisHandler_responses:
  "(firstValue (Query r) ''key'' = None \<longrightarrow>
      Code (fst (redisHandler rdb_Get NewRecorder r)) = StatusBadRequest \<and>
      RecBody (fst (redisHandler rdb_Get NewRecorder r)) =
        ''Query parameter 'key' is required\<newline>'' \<and>
      sublist ''key'' (RecBody (fst (redisHandler rdb_Get NewRecorder r))) \<and>
      snd (redisHandler rdb_Get NewRecorder r) = []) \<and>
   (firstValue (Query r) ''key'' = Some key \<longrightarrow> rdb_Get key = (val, Some redis_Nil) \<longrightarrow>
      Code (fst (redisHandler rdb_Get NewRecorder r)) = StatusNotFound \<and>
      RecBody (fst (redisHandler rdb_Get NewRecorder r)) =
        ''Key '' @ [CHR 0x27] @ key @ [CHR 0x27] @ '' not found\<newline>'' \<and>
      sublist key (RecBody (fst (redisHandler rdb_Get NewRecorder r))) \<and>
      snd (redisHandler rdb_Get NewRecorder r) = []) \<and>
   (firstValue (Query r) ''key'' = Some key \<longrightarrow> rdb_Get key = (val, Some (OtherError err)) \<longrightarrow>
      Code (fst (redisHandler rdb_Get NewRecorder r)) = StatusInternalServerError \<and>
      RecBody (fst (redisHandler rdb_Get NewRecorder r)) =
        ''Failed to retrieve data from Redis\<newline>'' \<and>
      snd (redisHandler rdb_Get NewRecorder r) =
        [Printf ''Redis GET error for key '%s': %v'' [StringOp key, StringOp err]]) \<and>
   (firstValue (Query r) ''key'' = Some key \<longrightarrow> rdb_Get key = (val, None) \<longrightarrow>
      Code (fst (redisHandler rdb_Get NewRecorder r)) = StatusOK \<and>
      HeaderMap (fst (redisHandler rdb_Get NewRecorder r)) ''Content-Type'' =
        Some [''text/plain; charset=utf-8''] \<and>
      RecBody (fst (redisHandler rdb_Get NewRecorder r)) = val @ ''\<newline>'' \<and>
      snd (redisHandler rdb_Get NewRecorder r) = [])"
proof -
  have fresh: "\<not> wroteHeader NewRecorder" "RecBody NewRecorder = []"
    by (simp_all add: NewRecorder_def)
  note err = http_Error_fresh [OF fresh]
  have sub: "sublist key (''Key '' @ [CHR 0x27] @ key @ [CHR 0x27] @ '' not found\<newline>'')"
    by (rule sublist_appendI [of key "''Key '' @ [CHR 0x27]" "[CHR 0x27] @ '' not found\<newline>''",
          simplified append_assoc])
  have k: "firstValue (Query r) ''key'' = Some key \<Longrightarrow> Get (Query r) ''key'' = key \<and> key \<noteq> []"
    by (auto simp: Get_firstValue dest: firstValue_Some_nonempty)
  have sub': "sublist ''key'' ''Query parameter 'key' is required\<newline>''"
    by (simp add: Contains_sublist [symmetric] Contains_def)
  show ?thesis
    using sub sub'
    by (auto simp: redisHandler_def Let_def err Get_empty_iff Fprintln_NewRecorder_hdr
          StatusOK_def dest!: k)
qed

theorem redisHandler_responses_witness:
  "Code (fst (redisHandler
      (\<lambda>k. if k = ''app:name'' then (''go-hello-server'', None)
           else if k = ''boom'' then ([], Some (OtherError ''i/o timeout''))
           else ([], Some redis_Nil))
      NewRecorder
      \<lparr>Method = ''GET'', Query = Map.empty, Header = Map.empty, Body = ([], None),
       RemoteAddr = ''9.9.9.9:1234''\<rparr>)) = 400 \<and>
   Code (fst (redisHandler
      (\<lambda>k. if k = ''app:name'' then (''go-hello-server'', None)
           else if k = ''boom'' then ([], Some (OtherError ''i/o timeout''))
           else ([], Some redis_Nil))
      NewRecorder
      \<lparr>Method = ''GET'', Query = [''key'' \<mapsto> [''nope'']], Header = Map.empty,
       Body = ([], None), RemoteAddr = ''9.9.9.9:1234''\<rparr>)) = 404 \<and>
   RecBody (fst (redisHandler
      (\<lambda>k. if k = ''app:name'' then (''go-hello-server'', None)
           else if k = ''boom'' then ([], Some (OtherError ''i/o timeout''))
           else ([], Some redis_Nil))
      NewRecorder
      \<lparr>Method = ''GET'', Query = [''key'' \<mapsto> [''nope'']], Header = Map.empty,
       Body = ([], None), RemoteAddr = ''9.9.9.9:1234''\<rparr>)) =
     ''Key 'nope' not found\<newline>'' \<and>
   Code (fst (redisHandler
      (\<lambda>k. if k = ''app:name'' then (''go-hello-server'', None)
           else if k = ''boom'' then ([], Some (OtherError ''i/o timeout''))
           else ([], Some redis_Nil))
      NewRecorder
      \<lparr>Method = ''GET'', Query = [''key'' \<mapsto> [''boom'']], Header = Map.empty,
       Body = ([], None), RemoteAddr = ''9.9.9.9:1234''\<rparr>)) = 500 \<and>
   RecBody (fst (redisHandler
      (\<lambda>k. if k = ''app:name'' then (''go-hello-server'', None)
           else if k = ''boom'' then ([], Some (OtherError ''i/o timeout''))
           else ([], Some redis_Nil))
      NewRecorder
      \<lparr>Method = ''GET'', Query = [''key'' \<mapsto> [''app:name'']], Header = Map.empty,
       Body = ([], None), RemoteAddr = ''9.9.9.9:1234''\<rparr>)) = ''go-hello-server\<newline>''"
proof -
  let ?g = "\<lambda>k. if k = ''app:name'' then (''go-hello-server'', None)
           else if k = ''boom'' then ([], Some (OtherError ''i/o timeout''))
           else ([], Some redis_Nil)"
  let ?r = "\<lambda>q. \<lparr>Method = ''GET'', Query = q, Header = Map.empty, Body = ([], None),
       RemoteAddr = ''9.9.9.9:1234''\<rparr>"
  have "firstValue (Query (?r Map.empty)) ''key'' = None"
    by (simp add: firstValue_def)
  with redisHandler_responses [of "?r Map.empty" ?g]
  have a: "Code (fst (redisHandler ?g NewRecorder (?r Map.empty))) = 400"
    by (simp add: StatusBadRequest_def)
  have "firstValue (Query (?r [''key'' \<mapsto> [''nope'']])) ''key'' = Some ''nope''"
    "?g ''nope'' = ([], Some redis_Nil)"
    by (simp_all add: firstValue_def)
  with redisHandler_responses [of "?r [''key'' \<mapsto> [''nope'']]" ?g "''nope''" "[]"]
  have b: "Code (fst (redisHandler ?g NewRecorder (?r [''key'' \<mapsto> [''nope'']]))) = 404"
    "RecBody (fst (redisHandler ?g NewRecorder (?r [''key'' \<mapsto> [''nope'']]))) =
       ''Key 'nope' not found\<newline>''"
    by (simp_all add: StatusNotFound_def)
  have "firstValue (Query (?r [''key'' \<mapsto> [''boom'']])) ''key'' = Some ''boom''"
    "?g ''boom'' = ([], Some (OtherError ''i/o timeout''))"
    by (simp_all add: firstValue_def)
  with redisHandler_responses [of "?r [''key'' \<mapsto> [''boom'']]" ?g "''boom''" "[]"
      "''i/o timeout''"]
  have c: "Code (fst (redisHandler ?g NewRecorder (?r [''key'' \<mapsto> [''boom'']]))) = 500"
    by (simp add: StatusInternalServerError_def)
  have "firstValue (Query (?r [''key'' \<mapsto> [''app:name'']])) ''key'' = Some ''app:name''"
    "?g ''app:name'' = (''go-hello-server'', None)"
    by (simp_all add: firstValue_def)
  with redisHandler_responses [of "?r [''key'' \<mapsto> [''app:name'']]" ?g "''app:name''"
      "''go-hello-server''"]
  have d: "RecBody (fst (redisHandler ?g NewRecorder (?r [''key'' \<mapsto> [''app:name'']]))) =
      ''go-hello-server\<newline>''"
    by simp
  from a b c d show ?thesis by simp
qed

subsection \<open>The cache connection\<close>

text \<open>
  Claim C6 says that the address the client connects to is the value of
  \<^verbatim>\<open>REDIS_ADDR\<close>. \<^verbatim>\<open>initRedis\<close> reads the variable into \<^verbatim>\<open>addr\<close> (under the comment
  ``Configuration from environment variables'') and then builds the client with a
  literal address: with \<^verbatim>\<open>REDIS_ADDR=localhost:6379\<close> and a store that answers, the
  client's address is not \<^verbatim>\<open>localhost:6379\<close>.
\<close>

theorem initRedis_ignores_REDIS_ADDR:
  "\<exists>rdb lg. initRedis [''REDIS_ADDR'' \<mapsto> ''localhost:6379''] (\<lambda>opts. None) = Inr (rdb, lg) \<and>
     Addr rdb = ''test-g6r4t-redis-master.test-g6r4t.svc.cluster.local:6379'' \<and>
     Addr rdb \<noteq> ''localhost:6379'' \<and> DB rdb = 0"
  by (simp add: initRedis_def Getenv_def Atoi_def Let_def)

text \<open>
  The rest of C6 holds: the database index is the number in \<^verbatim>\<open>REDIS_DB\<close>, 0 when the
  variable is unset or empty, and a store that does not answer the ping ends the process.
\<close>

lemma initRedis_DB:
  "initRedis env Ping = Inr (opts, lg) \<Longrightarrow>
   Atoi (if Getenv env ''REDIS_DB'' = [] then ''0'' else Getenv env ''REDIS_DB'') = Inr (DB opts)"
  by (auto simp: initRedis_def Let_def split: sum.splits option.splits)

lemma initRedis_DB_default:
  "env ''REDIS_DB'' = None \<Longrightarrow> initRedis env Ping = Inr (opts, lg) \<Longrightarrow> DB opts = 0"
  by (auto simp: initRedis_def Let_def Getenv_def Atoi_def split: sum.splits option.splits)

lemma initRedis_Ping_fatal:
  "initRedis env Ping = Inr (opts, lg) \<Longrightarrow> Ping opts = None"
  by (auto simp: initRedis_def Let_def split: sum.splits option.splits)

subsection \<open>Shutdown\<close>

text \<open>
  Claim C8 says that after a signal the requests in flight have up to ten seconds to
  complete and that the process then exits with status 0. In \<^verbatim>\<open>main\<close> the goroutine
  that runs \<^verbatim>\<open>ListenAndServe\<close> treats every error as fatal, \<^verbatim>\<open>ErrServerClosed\<close> too: with
  one request in flight, a signal, the two steps that bring \<^verbatim>\<open>main\<close> into \<^verbatim>\<open>Shutdown\<close>
  and two steps of that goroutine end the process with status 1, at time 0, the request
  still in flight.
\<close>

theorem shutdown_exits_1_with_request_in_flight:
  "exitStatus (run (Listening 1) [Signal, RunMain, RunMain, RunServer, RunServer]) = Some 1 \<and>
   inflight (run (Listening 1) [Signal, RunMain, RunMain, RunServer, RunServer]) = 1 \<and>
   now (run (Listening 1) [Signal, RunMain, RunMain, RunServer, RunServer]) = 0 \<and>
   deadline (run (Listening 1) [Signal, RunMain, RunMain, RunServer, RunServer]) = Some 10000"
  by (simp add: run_def step_def mainStep_def serverStep_def Listening_def)

text \<open>
  When the scheduler runs \<^verbatim>\<open>main\<close> only, the process does what the claim says: it
  exits with status 0 once the request has completed, or once ten seconds have passed.
\<close>

lemma shutdown_drained:
  "exitStatus (run (Listening 1)
     [Signal, RunMain, RunMain, RunMain, RequestDone, RunMain, RunMain, RunMain]) = Some 0"
  by (simp add: run_def step_def mainStep_def serverStep_def Listening_def)

lemma shutdown_deadline:
  "exitStatus (run (Listening 1)
     [Signal, RunMain, RunMain, Tick 9999, RunMain, RunMain, RunMain]) = None \<and>
   exitStatus (run (Listening 1)
     [Signal, RunMain, RunMain, Tick 10000, RunMain, RunMain, RunMain]) = Some 0"
  by (simp add: run_def step_def mainStep_def serverStep_def Listening_def)

end
